theory Spec2Isabelle
  imports Complex_Main "HOL-Library.Multiset" "HOL-Library.Option_ord" "HOL-Library.Char_ord"
    "HOL-Library.List_Lexorder" "HOL-Library.Sublist"
begin

section \<open>SkiMeister: search engine, fetcher and extractor\<close>

text \<open>
  The Python sources \<^verbatim>\<open>app.py\<close>, \<^verbatim>\<open>scrapers/base_scraper.py\<close>,
  \<^verbatim>\<open>scrapers/bergfex_scraper.py\<close> and \<^verbatim>\<open>scrapers/weather_service.py\<close> are
  embedded function by function. A raised exception is the left summand of
  \<open>py_error + 'a\<close>; Python's \<^verbatim>\<open>None\<close> is \<open>None\<close>; a \<^verbatim>\<open>Float\<close> column or
  a \<^verbatim>\<open>time.time()\<close> reading is a real number (rounding, \<^verbatim>\<open>inf\<close> and \<^verbatim>\<open>nan\<close> are
  outside the model).
\<close>

datatype py_error =
  ValueError | TypeError | KeyError | IndexError | AttributeError | NameError
  | OverflowError | JSONDecodeError | RequestException | OperationalError

subsection \<open>models.py: the rows the search reads\<close>

text \<open>
  \<^verbatim>\<open>Conditions\<close> and \<^verbatim>\<open>Pricing\<close> are one-to-one with \<^verbatim>\<open>Resort\<close>
  (\<^verbatim>\<open>uselist=False\<close>, \<^verbatim>\<open>unique=True\<close>), so a resort carries at most one of each.
  Nullable columns are options. Columns that neither \<^verbatim>\<open>apply_filters\<close> nor the sort of
  \<^verbatim>\<open>search_resorts\<close> reads are left out.
\<close>

record conditions_row =
  snow_depth_valley :: "int option"
  snow_depth_mountain :: "int option"
  slopes_open_km :: "real option"
  status :: "string option"

record pricing_row =
  adult_day_pass :: "real option"
  child_day_pass :: "real option"

record resort =
  name :: string
  slug :: string
  country :: string
  latitude :: real
  longitude :: real
  conditions :: "conditions_row option"
  pricing :: "pricing_row option"

subsection \<open>Library functions taken as parameters\<close>

text \<open>
  The builtins \<^verbatim>\<open>int(s)\<close> and \<^verbatim>\<open>float(s)\<close> on a string, geopy's
  \<^verbatim>\<open>geodesic(a, b).kilometers\<close>, \<^verbatim>\<open>round(d, 1)\<close>, \<^verbatim>\<open>hashlib.md5(s).hexdigest()\<close>
  and the \<^verbatim>\<open>isoformat\<close> and \<^verbatim>\<open>fromisoformat\<close> of \<^verbatim>\<open>datetime\<close> are not code of the
  repository: every theorem holds for whatever they compute. \<open>None\<close> from a conversion
  is the \<^verbatim>\<open>ValueError\<close> the builtin raises on a string it does not accept. A point in
  time is a real number of seconds; \<^verbatim>\<open>fromisoformat\<close> yields a naive datetime, or an
  aware one when the string carries a UTC offset. \<open>row_order\<close> is the order in which the
  database returns the rows that a statement selects, given the tables it joins: the
  statements have no \<^verbatim>\<open>ORDER BY\<close>.
\<close>

datatype py_datetime = Naive real | Aware real

record pylib =
  py_int :: "string \<Rightarrow> int option"
  py_float :: "string \<Rightarrow> real option"
  geodesic_km :: "real \<times> real \<Rightarrow> real \<times> real \<Rightarrow> py_error + real"
  py_round1 :: "real \<Rightarrow> real"
  md5_hexdigest :: "string \<Rightarrow> string"
  isoformat :: "real \<Rightarrow> string"
  fromisoformat :: "string \<Rightarrow> py_datetime option"
  row_order :: "string list \<Rightarrow> resort list \<Rightarrow> resort list"

subsection \<open>app.py: apply\_filters\<close>

text \<open>
  A query is what the calls have built, nothing being sent to the database before
  \<^verbatim>\<open>query.all()\<close>: the resorts that satisfy the criteria given so far, the tables joined,
  one entry for each call of \<^verbatim>\<open>join\<close>, and the integers bound as parameters.
  \<^verbatim>\<open>query.join(T).filter(c)\<close> keeps the resorts that have a \<^verbatim>\<open>T\<close> row for which
  \<^verbatim>\<open>c\<close> is true; a comparison with a NULL column is not true in SQL.
\<close>

record query =
  selected :: "resort list"
  joined :: "string list"
  int_params :: "int list"

text \<open>\<^verbatim>\<open>session.query(Resort)\<close> over the table \<open>db\<close>.\<close>

definition session_query :: "resort list \<Rightarrow> query" where
  "session_query db = \<lparr> selected = db, joined = [], int_params = [] \<rparr>"

definition sql_ge :: "('a::linorder) option \<Rightarrow> 'a \<Rightarrow> bool" where
  "sql_ge col v = (case col of None \<Rightarrow> False | Some x \<Rightarrow> v \<le> x)"

definition sql_le :: "('a::linorder) option \<Rightarrow> 'a \<Rightarrow> bool" where
  "sql_le col v = (case col of None \<Rightarrow> False | Some x \<Rightarrow> x \<le> v)"

definition sql_eq :: "'a option \<Rightarrow> 'a \<Rightarrow> bool" where
  "sql_eq col v = (case col of None \<Rightarrow> False | Some x \<Rightarrow> x = v)"

definition join_conditions :: "(conditions_row \<Rightarrow> bool) \<Rightarrow> query \<Rightarrow> query" where
  "join_conditions c q =
     q\<lparr> selected :=
           filter (\<lambda>r. case conditions r of None \<Rightarrow> False | Some cond \<Rightarrow> c cond) (selected q),
        joined := joined q @ [''conditions''] \<rparr>"

definition join_pricing :: "(pricing_row \<Rightarrow> bool) \<Rightarrow> query \<Rightarrow> query" where
  "join_pricing c q =
     q\<lparr> selected :=
           filter (\<lambda>r. case pricing r of None \<Rightarrow> False | Some price \<Rightarrow> c price) (selected q),
        joined := joined q @ [''pricing''] \<rparr>"

text \<open>
  \<^verbatim>\<open>query.all()\<close>. The ORM (SQLAlchemy from 1.4 on, which \<^verbatim>\<open>models.py\<close> requires) renders
  one \<^verbatim>\<open>JOIN\<close> for each call of \<^verbatim>\<open>join\<close>, and SQLite refuses a statement that joins
  the same table twice under one name (\<^verbatim>\<open>OperationalError\<close>, ambiguous column name).
  Then the parameters are bound, and \<^verbatim>\<open>sqlite3\<close> refuses an integer outside 64 bits
  (\<^verbatim>\<open>OverflowError\<close>). Otherwise the selected rows come back in the order of the database.
\<close>

definition query_all :: "pylib \<Rightarrow> query \<Rightarrow> py_error + resort list" where
  "query_all lib q =
     (if \<not> distinct (joined q) then Inl OperationalError
      else if filter (\<lambda>n. n < - (2 ^ 63) \<or> 2 ^ 63 \<le> n) (int_params q) \<noteq> []
      then Inl OverflowError
      else Inr (row_order lib (joined q) (selected q)))"

text \<open>\<^verbatim>\<open>'k' in filters and filters['k']\<close>: the key is there and its string is not empty.\<close>

definition has_value :: "(string \<rightharpoonup> string) \<Rightarrow> string \<Rightarrow> bool" where
  "has_value filters k = (case filters k of None \<Rightarrow> False | Some v \<Rightarrow> v \<noteq> [])"

definition filter_min_snow ::
  "pylib \<Rightarrow> query \<Rightarrow> (string \<rightharpoonup> string) \<Rightarrow> py_error + query" where
  "filter_min_snow lib q filters =
     (if has_value filters ''min_snow'' then
        (case py_int lib (the (filters ''min_snow'')) of
           None \<Rightarrow> Inl ValueError
         | Some n \<Rightarrow>
             Inr ((join_conditions (\<lambda>c. sql_ge (snow_depth_mountain c) n) q)
                    \<lparr> int_params := int_params q @ [n] \<rparr>))
      else Inr q)"

definition filter_status :: "query \<Rightarrow> (string \<rightharpoonup> string) \<Rightarrow> query" where
  "filter_status q filters =
     (if has_value filters ''status'' then
        join_conditions (\<lambda>c. sql_eq (status c) (the (filters ''status''))) q
      else q)"

definition filter_min_slopes ::
  "pylib \<Rightarrow> query \<Rightarrow> (string \<rightharpoonup> string) \<Rightarrow> py_error + query" where
  "filter_min_slopes lib q filters =
     (if has_value filters ''min_slopes'' then
        (case py_float lib (the (filters ''min_slopes'')) of
           None \<Rightarrow> Inl ValueError
         | Some x \<Rightarrow> Inr (join_conditions (\<lambda>c. sql_ge (slopes_open_km c) x) q))
      else Inr q)"

definition filter_max_price ::
  "pylib \<Rightarrow> query \<Rightarrow> (string \<rightharpoonup> string) \<Rightarrow> py_error + query" where
  "filter_max_price lib q filters =
     (if has_value filters ''max_price'' then
        (case py_float lib (the (filters ''max_price'')) of
           None \<Rightarrow> Inl ValueError
         | Some x \<Rightarrow> Inr (join_pricing (\<lambda>p. sql_le (adult_day_pass p) x) q))
      else Inr q)"

definition filter_country :: "query \<Rightarrow> (string \<rightharpoonup> string) \<Rightarrow> query" where
  "filter_country q filters =
     (if has_value filters ''country'' then
        q\<lparr> selected := filter (\<lambda>r. country r = the (filters ''country'')) (selected q) \<rparr>
      else q)"

text \<open>The five \<^verbatim>\<open>if\<close> blocks of \<^verbatim>\<open>apply_filters\<close>, in the order of the source.\<close>

definition apply_filters ::
  "pylib \<Rightarrow> query \<Rightarrow> (string \<rightharpoonup> string) \<Rightarrow> py_error + query" where
  "apply_filters lib q filters =
     (case filter_min_snow lib q filters of
        Inl e \<Rightarrow> Inl e
      | Inr q1 \<Rightarrow>
        (case filter_min_slopes lib (filter_status q1 filters) filters of
           Inl e \<Rightarrow> Inl e
         | Inr q3 \<Rightarrow>
           (case filter_max_price lib q3 filters of
              Inl e \<Rightarrow> Inl e
            | Inr q4 \<Rightarrow> Inr (filter_country q4 filters))))"

text \<open>
  The three statements that both routes share: \<^verbatim>\<open>query = session.query(Resort)\<close>,
  \<^verbatim>\<open>query = apply_filters(query, filters)\<close>, \<^verbatim>\<open>query.all()\<close>.
\<close>

definition filtered_rows ::
  "pylib \<Rightarrow> resort list \<Rightarrow> (string \<rightharpoonup> string) \<Rightarrow> py_error + resort list" where
  "filtered_rows lib db filters =
     (case apply_filters lib (session_query db) filters of
        Inl e \<Rightarrow> Inl e
      | Inr q \<Rightarrow> query_all lib q)"

subsection \<open>The filter pipeline in the words of the specification\<close>

text \<open>
  The specification speaks of a typed filter specification: five optional values, the
  numeric ones already coerced by the transport. A record survives when it satisfies every
  predicate whose value is present.
\<close>

record filter_spec =
  min_snow :: "int option"
  status_is :: "string option"
  min_slopes :: "real option"
  max_price :: "real option"
  country_is :: "string option"

definition mountain_snow :: "resort \<Rightarrow> int option" where
  "mountain_snow r = (case conditions r of None \<Rightarrow> None | Some c \<Rightarrow> snow_depth_mountain c)"

definition operating_status :: "resort \<Rightarrow> string option" where
  "operating_status r = (case conditions r of None \<Rightarrow> None | Some c \<Rightarrow> status c)"

definition open_slopes :: "resort \<Rightarrow> real option" where
  "open_slopes r = (case conditions r of None \<Rightarrow> None | Some c \<Rightarrow> slopes_open_km c)"

definition adult_price :: "resort \<Rightarrow> real option" where
  "adult_price r = (case pricing r of None \<Rightarrow> None | Some p \<Rightarrow> adult_day_pass p)"

definition spec_survives :: "filter_spec \<Rightarrow> resort \<Rightarrow> bool" where
  "spec_survives fs r =
     ((case min_snow fs of None \<Rightarrow> True | Some n \<Rightarrow> sql_ge (mountain_snow r) n) \<and>
      (case status_is fs of None \<Rightarrow> True | Some s \<Rightarrow> sql_eq (operating_status r) s) \<and>
      (case min_slopes fs of None \<Rightarrow> True | Some x \<Rightarrow> sql_ge (open_slopes r) x) \<and>
      (case max_price fs of None \<Rightarrow> True | Some x \<Rightarrow> sql_le (adult_price r) x) \<and>
      (case country_is fs of None \<Rightarrow> True | Some c \<Rightarrow> country r = c))"

text \<open>
  The coercion of the flat string dictionary into a filter specification: a key that is
  missing or empty gives an absent value; a numeric value that does not convert gives no
  filter specification at all.
\<close>

definition text_value :: "(string \<rightharpoonup> string) \<Rightarrow> string \<Rightarrow> string option" where
  "text_value filters k = (if has_value filters k then filters k else None)"

definition coerce_filters :: "pylib \<Rightarrow> (string \<rightharpoonup> string) \<Rightarrow> filter_spec option" where
  "coerce_filters lib filters =
     (if (has_value filters ''min_snow'' \<and> py_int lib (the (filters ''min_snow'')) = None)
         \<or> (has_value filters ''min_slopes'' \<and> py_float lib (the (filters ''min_slopes'')) = None)
         \<or> (has_value filters ''max_price'' \<and> py_float lib (the (filters ''max_price'')) = None)
      then None
      else Some \<lparr>
        min_snow = (if has_value filters ''min_snow''
                    then py_int lib (the (filters ''min_snow'')) else None),
        status_is = text_value filters ''status'',
        min_slopes = (if has_value filters ''min_slopes''
                      then py_float lib (the (filters ''min_slopes'')) else None),
        max_price = (if has_value filters ''max_price''
                     then py_float lib (the (filters ''max_price'')) else None),
        country_is = text_value filters ''country'' \<rparr>)"

subsection \<open>app.py: search\_resorts\<close>

text \<open>config.py, the search settings.\<close>

definition DEFAULT_SEARCH_RADIUS_KM :: real where "DEFAULT_SEARCH_RADIUS_KM = 200"
definition MAX_SEARCH_RADIUS_KM :: real where "MAX_SEARCH_RADIUS_KM = 500"
definition MIN_SEARCH_RADIUS_KM :: real where "MIN_SEARCH_RADIUS_KM = 10"

text \<open>
  \<^verbatim>\<open>request.args.get(k, default, type=float)\<close>: the default (\<^verbatim>\<open>None\<close> when none is
  given) both for a missing key and for a value that \<^verbatim>\<open>float\<close> rejects.
\<close>

definition args_get_float :: "pylib \<Rightarrow> (string \<rightharpoonup> string) \<Rightarrow> string \<Rightarrow> real option" where
  "args_get_float lib args k = (case args k of None \<Rightarrow> None | Some v \<Rightarrow> py_float lib v)"

text \<open>
  An item of the answer: \<^verbatim>\<open>resort.to_dict()\<close> with \<^verbatim>\<open>distance_km\<close> added.
  \<^verbatim>\<open>to_dict\<close> sets the keys \<^verbatim>\<open>'conditions'\<close> and \<^verbatim>\<open>'pricing'\<close> only when the
  resort has the row, and then with every column as a key, \<^verbatim>\<open>None\<close> for NULL.
\<close>

record resort_dict =
  row :: resort
  distance_km :: real

definition calculate_distance :: "pylib \<Rightarrow> real \<Rightarrow> real \<Rightarrow> real \<Rightarrow> real \<Rightarrow> py_error + real" where
  "calculate_distance lib lat1 lon1 lat2 lon2 = geodesic_km lib (lat1, lon1) (lat2, lon2)"

text \<open>The loop over \<^verbatim>\<open>all_resorts\<close> that builds \<^verbatim>\<open>nearby_resorts\<close>.\<close>

fun nearby_loop ::
  "pylib \<Rightarrow> real \<Rightarrow> real \<Rightarrow> real \<Rightarrow> resort list \<Rightarrow> resort_dict list
     \<Rightarrow> py_error + resort_dict list" where
  "nearby_loop lib lat lng radius [] nearby_resorts = Inr nearby_resorts"
| "nearby_loop lib lat lng radius (r # rest) nearby_resorts =
     (case calculate_distance lib lat lng (latitude r) (longitude r) of
        Inl e \<Rightarrow> Inl e
      | Inr distance \<Rightarrow>
          nearby_loop lib lat lng radius rest
            (if distance \<le> radius
             then nearby_resorts @ [\<lparr> row = r, distance_km = py_round1 lib distance \<rparr>]
             else nearby_resorts))"

text \<open>
  \<^verbatim>\<open>list.sort(key=f)\<close> is stable. It compares keys with \<^verbatim>\<open><\<close>, which raises
  \<^verbatim>\<open>TypeError\<close> when an operand is \<^verbatim>\<open>None\<close>; a list of fewer than two items is
  returned without any comparison, and in a longer list every item takes part in one.
  With \<^verbatim>\<open>reverse=True\<close> the list is reversed, sorted and reversed again.
\<close>

definition py_sort :: "('a \<Rightarrow> ('k::linorder) option) \<Rightarrow> 'a list \<Rightarrow> py_error + 'a list" where
  "py_sort key xs =
     (if 2 \<le> length xs \<and> None \<in> set (map key xs) then Inl TypeError
      else Inr (sort_key key xs))"

definition py_sort_reverse ::
  "('a \<Rightarrow> ('k::linorder) option) \<Rightarrow> 'a list \<Rightarrow> py_error + 'a list" where
  "py_sort_reverse key xs =
     (case py_sort key (rev xs) of Inl e \<Rightarrow> Inl e | Inr ys \<Rightarrow> Inr (rev ys))"

text \<open>
  The sort keys. \<^verbatim>\<open>x.get('pricing', {}).get('adult_day_pass', 999)\<close>: 999 when the
  item has no pricing, else the column, which may be \<^verbatim>\<open>None\<close>.
\<close>

definition price_key :: "resort_dict \<Rightarrow> real option" where
  "price_key x = (case pricing (row x) of None \<Rightarrow> Some 999 | Some p \<Rightarrow> adult_day_pass p)"

definition snow_key :: "resort_dict \<Rightarrow> int option" where
  "snow_key x =
     (case conditions (row x) of None \<Rightarrow> Some 0 | Some c \<Rightarrow> snow_depth_mountain c)"

definition sort_results :: "string \<Rightarrow> resort_dict list \<Rightarrow> py_error + resort_dict list" where
  "sort_results sort_by nearby_resorts =
     (if sort_by = ''distance'' then py_sort (\<lambda>x. Some (distance_km x)) nearby_resorts
      else if sort_by = ''name'' then py_sort (\<lambda>x. Some (name (row x))) nearby_resorts
      else if sort_by = ''price'' then py_sort price_key nearby_resorts
      else if sort_by = ''snow'' then py_sort_reverse snow_key nearby_resorts
      else Inr nearby_resorts)"

datatype response =
  Ok_200 nat real real real "resort_dict list"
  | Error_400
  | Error_500

text \<open>
  \<^verbatim>\<open>Ok_200 count lat lng radius_km resorts\<close> is the success answer. Every exception
  inside the \<^verbatim>\<open>try\<close> is caught by \<^verbatim>\<open>except Exception\<close> and answered with 500.
\<close>

definition search_located ::
  "pylib \<Rightarrow> resort list \<Rightarrow> (string \<rightharpoonup> string) \<Rightarrow> real \<Rightarrow> real \<Rightarrow> response" where
  "search_located lib db args lat lng =
     (let radius = (case args_get_float lib args ''radius'' of
                      None \<Rightarrow> DEFAULT_SEARCH_RADIUS_KM | Some r \<Rightarrow> r);
          radius = min radius MAX_SEARCH_RADIUS_KM;
          radius = max radius MIN_SEARCH_RADIUS_KM
      in case filtered_rows lib db args of
           Inl e \<Rightarrow> Error_500
         | Inr all_resorts \<Rightarrow>
           (case nearby_loop lib lat lng radius all_resorts [] of
              Inl e \<Rightarrow> Error_500
            | Inr nearby_resorts \<Rightarrow>
              (case sort_results (case args ''sort'' of None \<Rightarrow> ''distance'' | Some s \<Rightarrow> s)
                      nearby_resorts of
                 Inl e \<Rightarrow> Error_500
               | Inr sorted_resorts \<Rightarrow>
                   Ok_200 (length sorted_resorts) lat lng radius sorted_resorts)))"

text \<open>
  The route: the early return with 400 when \<^verbatim>\<open>lat\<close> or \<^verbatim>\<open>lng\<close> is \<^verbatim>\<open>None\<close>, else
  the rest of the \<^verbatim>\<open>try\<close> block, \<open>search_located\<close>.
\<close>

definition search_resorts :: "pylib \<Rightarrow> resort list \<Rightarrow> (string \<rightharpoonup> string) \<Rightarrow> response" where
  "search_resorts lib db args =
     (case args_get_float lib args ''lat'' of
        None \<Rightarrow> Error_400
      | Some lat \<Rightarrow>
        (case args_get_float lib args ''lng'' of
           None \<Rightarrow> Error_400
         | Some lng \<Rightarrow> search_located lib db args lat lng))"

subsection \<open>scrapers/base\_scraper.py: state of a scraper and of its surroundings\<close>

text \<open>
  JSON values, as \<^verbatim>\<open>json.load\<close> returns them; an object is the list of its members,
  each key once. Python's \<^verbatim>\<open>None\<close> as a value is \<open>JNull\<close>.
\<close>

datatype json =
  JNull | JBool bool | JNum real | JStr string | JArr "json list" | JObj "(string \<times> json) list"

text \<open>Python's truth value of such a value (\<^verbatim>\<open>if cached:\<close>, \<^verbatim>\<open>if geo:\<close>).\<close>

fun truthy :: "json \<Rightarrow> bool" where
  "truthy JNull = False"
| "truthy (JBool b) = b"
| "truthy (JNum x) = (x \<noteq> 0)"
| "truthy (JStr s) = (s \<noteq> [])"
| "truthy (JArr xs) = (xs \<noteq> [])"
| "truthy (JObj kvs) = (kvs \<noteq> [])"

text \<open>
  \<^verbatim>\<open>d[k]\<close> with a string key: \<^verbatim>\<open>KeyError\<close> on an object without the member,
  \<^verbatim>\<open>TypeError\<close> on every value that is not an object.
\<close>

fun subscript :: "json \<Rightarrow> string \<Rightarrow> py_error + json" where
  "subscript (JObj kvs) k = (case map_of kvs k of None \<Rightarrow> Inl KeyError | Some v \<Rightarrow> Inr v)"
| "subscript _ k = Inl TypeError"

text \<open>config.py, the scraper and cache settings.\<close>

record config =
  SCRAPER_RATE_LIMIT :: real
  SCRAPER_MAX_RETRIES :: nat
  CACHE_DIR :: string
  CACHE_EXPIRY_HOURS :: real

definition config_py :: config where
  "config_py = \<lparr> SCRAPER_RATE_LIMIT = 2, SCRAPER_MAX_RETRIES = 3,
                  CACHE_DIR = ''cache'', CACHE_EXPIRY_HOURS = 24 \<rparr>"

text \<open>
  What one network request meets: \<open>body = None\<close> is a \<^verbatim>\<open>requests.RequestException\<close>
  (from \<^verbatim>\<open>session.get\<close> or from \<^verbatim>\<open>raise_for_status\<close>), \<open>Some text\<close> is
  \<^verbatim>\<open>response.text\<close>; \<open>duration\<close> is the time the request takes.
\<close>

record net_outcome =
  body :: "string option"
  duration :: real

text \<open>
  The state: the clock that \<^verbatim>\<open>time.time()\<close> and \<^verbatim>\<open>datetime.utcnow()\<close> read, the
  attribute \<^verbatim>\<open>self.last_request_time\<close>, the files of the cache directory by path (a file
  is \<open>None\<close> when its text is not JSON, else the value it holds), and the network, which
  answers the \<open>i\<close>-th request made since the start. Two logs record what happened: each
  request with its time and the index \<^verbatim>\<open>attempt\<close> of the loop round that made it, and
  each \<^verbatim>\<open>time.sleep\<close> with its length. The \<^verbatim>\<open>User-Agent\<close> drawn at random only
  fills a header and is left out.
\<close>

record scraper =
  clock :: real
  last_request_time :: real
  cache_files :: "string \<rightharpoonup> json option"
  network :: "nat \<Rightarrow> string \<Rightarrow> net_outcome"
  request_log :: "(real \<times> nat) list"
  sleep_log :: "real list"

definition py_sleep :: "real \<Rightarrow> scraper \<Rightarrow> scraper" where
  "py_sleep secs st = st\<lparr> clock := clock st + secs, sleep_log := sleep_log st @ [secs] \<rparr>"

definition session_get :: "string \<Rightarrow> nat \<Rightarrow> scraper \<Rightarrow> string option \<times> scraper" where
  "session_get url attempt st =
     (let out = network st (length (request_log st)) url
      in (body out,
          st\<lparr> request_log := request_log st @ [(clock st, attempt)],
              clock := clock st + duration out \<rparr>))"

subsection \<open>scrapers/base\_scraper.py: BaseScraper\<close>

definition rate_limit :: "config \<Rightarrow> scraper \<Rightarrow> scraper" where
  "rate_limit cfg st =
     (let elapsed = clock st - last_request_time st;
          st1 = (if elapsed < SCRAPER_RATE_LIMIT cfg
                 then py_sleep (SCRAPER_RATE_LIMIT cfg - elapsed) st else st)
      in st1\<lparr> last_request_time := clock st1 \<rparr>)"

definition get_cache_path :: "pylib \<Rightarrow> config \<Rightarrow> string \<Rightarrow> string" where
  "get_cache_path lib cfg key = CACHE_DIR cfg @ ''/'' @ md5_hexdigest lib key @ ''.json''"

text \<open>
  The \<^verbatim>\<open>try\<close> block of \<^verbatim>\<open>_get_cached\<close>: \<open>Inr None\<close> when it falls through to the
  final \<^verbatim>\<open>return None\<close>. Subtracting an aware datetime from the naive
  \<^verbatim>\<open>datetime.utcnow()\<close> raises \<^verbatim>\<open>TypeError\<close>, as does \<^verbatim>\<open>fromisoformat\<close> of a value that
  is not a string.
\<close>

definition read_entry :: "pylib \<Rightarrow> config \<Rightarrow> real \<Rightarrow> json option \<Rightarrow> py_error + json option" where
  "read_entry lib cfg now file =
     (case file of
        None \<Rightarrow> Inl JSONDecodeError
      | Some cached_data \<Rightarrow>
        (case subscript cached_data ''timestamp'' of
           Inl e \<Rightarrow> Inl e
         | Inr (JStr s) \<Rightarrow>
             (case fromisoformat lib s of
                None \<Rightarrow> Inl ValueError
              | Some (Aware t) \<Rightarrow> Inl TypeError
              | Some (Naive cached_time) \<Rightarrow>
                  if now - cached_time < 3600 * CACHE_EXPIRY_HOURS cfg
                  then (case subscript cached_data ''data'' of
                          Inl e \<Rightarrow> Inl e | Inr d \<Rightarrow> Inr (Some d))
                  else Inr None)
         | Inr _ \<Rightarrow> Inl TypeError))"

definition get_cached :: "pylib \<Rightarrow> config \<Rightarrow> string \<Rightarrow> scraper \<Rightarrow> py_error + json option" where
  "get_cached lib cfg key st =
     (case cache_files st (get_cache_path lib cfg key) of
        None \<Rightarrow> Inr None
      | Some file \<Rightarrow>
        (case read_entry lib cfg (clock st) file of
           Inl e \<Rightarrow> if e = JSONDecodeError \<or> e = KeyError \<or> e = ValueError
                    then Inr None else Inl e
         | Inr r \<Rightarrow> Inr r))"

definition set_cached :: "pylib \<Rightarrow> config \<Rightarrow> string \<Rightarrow> json \<Rightarrow> scraper \<Rightarrow> scraper" where
  "set_cached lib cfg key data st =
     st\<lparr> cache_files := (cache_files st)(get_cache_path lib cfg key \<mapsto>
           Some (JObj [(''timestamp'', JStr (isoformat lib (clock st))), (''data'', data)])) \<rparr>"

text \<open>
  The loop \<^verbatim>\<open>for attempt in range(config.SCRAPER_MAX_RETRIES)\<close> of \<^verbatim>\<open>fetch_url\<close>, over
  the attempts still to make; the empty list is the \<^verbatim>\<open>return None\<close> after the loop.
\<close>

fun retry_loop ::
  "pylib \<Rightarrow> config \<Rightarrow> string \<Rightarrow> bool \<Rightarrow> nat list \<Rightarrow> scraper \<Rightarrow> json option \<times> scraper" where
  "retry_loop lib cfg url use_cache [] st = (None, st)"
| "retry_loop lib cfg url use_cache (attempt # rest) st =
     (case session_get url attempt st of
        (Some text, st1) \<Rightarrow>
          (Some (JStr text),
           if use_cache then set_cached lib cfg url (JStr text) st1 else st1)
      | (None, st1) \<Rightarrow>
          if attempt = SCRAPER_MAX_RETRIES cfg - 1 then (None, st1)
          else retry_loop lib cfg url use_cache rest (py_sleep (2 ^ attempt) st1))"

definition fetch_network ::
  "pylib \<Rightarrow> config \<Rightarrow> string \<Rightarrow> bool \<Rightarrow> scraper \<Rightarrow> (py_error + json option) \<times> scraper" where
  "fetch_network lib cfg url use_cache st =
     (case retry_loop lib cfg url use_cache [0..<SCRAPER_MAX_RETRIES cfg] (rate_limit cfg st) of
        (r, st') \<Rightarrow> (Inr r, st'))"

text \<open>
  \<^verbatim>\<open>fetch_url\<close>: the cache check, then the rate limit and the retry loop
  (\<open>fetch_network\<close>). An exception that \<^verbatim>\<open>_get_cached\<close> lets through leaves
  \<^verbatim>\<open>fetch_url\<close> as it is.
\<close>

definition fetch_url ::
  "pylib \<Rightarrow> config \<Rightarrow> string \<Rightarrow> bool \<Rightarrow> scraper \<Rightarrow> (py_error + json option) \<times> scraper" where
  "fetch_url lib cfg url use_cache st =
     (if use_cache then
        (case get_cached lib cfg url st of
           Inl e \<Rightarrow> (Inl e, st)
         | Inr None \<Rightarrow> fetch_network lib cfg url use_cache st
         | Inr (Some cached) \<Rightarrow>
             if truthy cached then (Inr (Some cached), st)
             else fetch_network lib cfg url use_cache st)
      else fetch_network lib cfg url use_cache st)"

text \<open>A run of \<^verbatim>\<open>fetch_url(url, use_cache=False)\<close> calls on one scraper, one per URL.\<close>

fun fetch_all :: "pylib \<Rightarrow> config \<Rightarrow> string list \<Rightarrow> scraper \<Rightarrow> scraper" where
  "fetch_all lib cfg [] st = st"
| "fetch_all lib cfg (url # urls) st = fetch_all lib cfg urls (snd (fetch_url lib cfg url False st))"

subsection \<open>scrapers/bergfex\_scraper.py: what the scraper reads from a parsed page\<close>

text \<open>
  BeautifulSoup, lxml and the regular expressions are not code of the repository. A parsed
  page is the record of what the scraper asks of it:
  \<^item> \<open>h1\<close>: \<^verbatim>\<open>soup.find('h1')\<close>, as the stripped text of the heading;
  \<^item> \<open>ld_json\<close>: the \<^verbatim>\<open>application/ld+json\<close> scripts in document order, each as what
    \<^verbatim>\<open>json.loads(script.string)\<close> meets;
  \<^item> \<open>altitude\<close>: the two numbers of the first text that matches
    \<^verbatim>\<open>(\d+)m\s*-\s*(\d+)m\<close>;
  \<^item> \<open>snow_info\<close>: whether a \<^verbatim>\<open>div\<close> with the text "Current information" or
    "Current snow report" exists;
  \<^item> \<open>mountain_label\<close>, \<open>valley_label\<close>: \<open>None\<close> without the label, \<open>Some None\<close> when the
    label's parent has no next sibling, else the text of that sibling;
  \<^item> \<open>status_elem\<close>: the stripped, lower-cased text of the first element selected by
    \<^verbatim>\<open>.resort-status, .status-label\<close>;
  \<^item> \<open>forecast_container\<close>: for \<^verbatim>\<open>.forecast9d-container, .forecast9d\<close>, its \<^verbatim>\<open>.day\<close>
    elements in document order.
\<close>

datatype ld_script = NoString | NotJson | Json json

record day_el =
  temps :: "string list"
  snow_el :: "string option"
  img :: "string option"

record soup =
  h1 :: "string option"
  ld_json :: "ld_script list"
  altitude :: "(int \<times> int) option"
  snow_info :: bool
  mountain_label :: "string option option"
  valley_label :: "string option option"
  status_elem :: "string option"
  forecast_container :: "day_el list option"

text \<open>
  \<^verbatim>\<open>re.search(r'(\d+)', s)\<close> followed by \<^verbatim>\<open>int\<close>: the first run of digits, and
  \<^verbatim>\<open>re.search(r'(-?\d+)', s)\<close>: the same with a minus sign right before it.
\<close>

definition is_digit :: "char \<Rightarrow> bool" where
  "is_digit c = (CHR ''0'' \<le> c \<and> c \<le> CHR ''9'')"

definition digits_value :: "string \<Rightarrow> int" where
  "digits_value ds = foldl (\<lambda>acc c. 10 * acc + (int (of_char c) - 48)) 0 ds"

fun first_int :: "string \<Rightarrow> int option" where
  "first_int [] = None"
| "first_int (c # cs) =
     (if is_digit c then Some (digits_value (takeWhile is_digit (c # cs))) else first_int cs)"

fun first_signed_int :: "string \<Rightarrow> int option" where
  "first_signed_int [] = None"
| "first_signed_int (c # cs) =
     (if c = CHR ''-'' \<and> cs \<noteq> [] \<and> is_digit (hd cs)
      then Some (- digits_value (takeWhile is_digit cs))
      else if is_digit c then Some (digits_value (takeWhile is_digit (c # cs)))
      else first_signed_int cs)"

text \<open>\<^verbatim>\<open>pat in s\<close> on strings.\<close>

fun contains :: "string \<Rightarrow> string \<Rightarrow> bool" where
  "contains [] pat = (pat = [])"
| "contains (c # cs) pat = (prefix pat (c # cs) \<or> contains cs pat)"

subsection \<open>scrapers/bergfex\_scraper.py: scrape\_forecast\<close>

text \<open>
  A forecast dictionary; a key that was never set is \<open>None\<close>. Both forecast sources build
  it. The temperatures are JSON values, since the coordinate-based source stores what the
  API sent.
\<close>

record forecast_day =
  date :: py_datetime
  temp_max :: "json option"
  temp_min :: "json option"
  snow_forecast_cm :: "int option"
  symbol :: "string option"

definition list_max :: "real list \<Rightarrow> real" where
  "list_max vals = fold max (tl vals) (hd vals)"

definition list_min :: "real list \<Rightarrow> real" where
  "list_min vals = fold min (tl vals) (hd vals)"

text \<open>
  The body of the loop over \<^verbatim>\<open>days[:7]\<close>. The module never imports \<^verbatim>\<open>os\<close>, so
  \<^verbatim>\<open>os.path.basename(src)\<close> raises \<^verbatim>\<open>NameError\<close> whenever the day has an \<^verbatim>\<open>img\<close>.
\<close>

definition scrape_day :: "real \<Rightarrow> nat \<Rightarrow> day_el \<Rightarrow> py_error + forecast_day" where
  "scrape_day current_date i d =
     (let vals = map real_of_int (List.map_filter first_signed_int (temps d));
          have_temps = (2 \<le> length vals);
          forecast = \<lparr>
            date = Naive (current_date + 86400 * real i),
            temp_max = (if have_temps then Some (JNum (list_max vals)) else None),
            temp_min = (if have_temps then Some (JNum (list_min vals)) else None),
            snow_forecast_cm = (case snow_el d of None \<Rightarrow> Some 0 | Some t \<Rightarrow> first_int t),
            symbol = None \<rparr>
      in case img d of None \<Rightarrow> Inr forecast | Some src \<Rightarrow> Inl NameError)"

fun scrape_days :: "real \<Rightarrow> nat \<Rightarrow> day_el list \<Rightarrow> forecast_day list \<Rightarrow> py_error + forecast_day list" where
  "scrape_days current_date i [] forecasts = Inr forecasts"
| "scrape_days current_date i (d # days) forecasts =
     (case scrape_day current_date i d of
        Inl e \<Rightarrow> Inl e
      | Inr forecast \<Rightarrow> scrape_days current_date (Suc i) days (forecasts @ [forecast]))"

text \<open>The \<^verbatim>\<open>try\<close> block of \<^verbatim>\<open>scrape_forecast\<close>; \<^verbatim>\<open>except Exception\<close> returns \<^verbatim>\<open>[]\<close>.\<close>

definition parse_forecast :: "real \<Rightarrow> soup \<Rightarrow> forecast_day list" where
  "parse_forecast current_date page =
     (case forecast_container page of
        None \<Rightarrow> []
      | Some days \<Rightarrow>
        (case scrape_days current_date 0 (take 7 days) [] of
           Inl e \<Rightarrow> []
         | Inr forecasts \<Rightarrow> forecasts))"

definition rstrip_slash :: "string \<Rightarrow> string" where
  "rstrip_slash url = rev (dropWhile (\<lambda>c. c = CHR ''/'') (rev url))"

text \<open>
  \<^verbatim>\<open>parse_html\<close> (BeautifulSoup on whatever \<^verbatim>\<open>fetch_url\<close> returned) is a parameter; it
  is called outside the \<^verbatim>\<open>try\<close>, as \<^verbatim>\<open>fetch_url\<close> is, so what they raise leaves
  \<^verbatim>\<open>scrape_forecast\<close>. \<open>current_date\<close> is today's midnight.
\<close>

definition scrape_forecast ::
  "pylib \<Rightarrow> config \<Rightarrow> (json \<Rightarrow> py_error + soup) \<Rightarrow> real \<Rightarrow> string \<Rightarrow> scraper
     \<Rightarrow> (py_error + forecast_day list) \<times> scraper" where
  "scrape_forecast lib cfg parse_html current_date resort_url st =
     (case fetch_url lib cfg (rstrip_slash resort_url @ ''/wetter/prognose/'') True st of
        (Inl e, st') \<Rightarrow> (Inl e, st')
      | (Inr None, st') \<Rightarrow> (Inr [], st')
      | (Inr (Some html), st') \<Rightarrow>
          if \<not> truthy html then (Inr [], st')
          else (case parse_html html of
                  Inl e \<Rightarrow> (Inl e, st')
                | Inr page \<Rightarrow> (Inr (parse_forecast current_date page), st')))"

subsection \<open>scrapers/bergfex\_scraper.py: scrape\_resort\<close>

text \<open>
  The dictionary \<^verbatim>\<open>data\<close> that \<^verbatim>\<open>scrape_resort\<close> fills; a key that was never set is
  \<open>None\<close>. Python's \<^verbatim>\<open>None\<close> as a stored value is \<open>JNull\<close>. \<^verbatim>\<open>'pricing'\<close> stays the
  empty dictionary and is left out.
\<close>

record conditions_dict =
  cond_snow_depth_mountain :: "int option"
  cond_snow_depth_valley :: "int option"
  cond_status :: "string option"

record resort_data =
  data_url :: string
  data_name :: "string option"
  data_latitude :: "real option"
  data_longitude :: "real option"
  data_description :: "json option"
  data_region :: "json option"
  data_altitude_min :: "int option"
  data_altitude_max :: "int option"
  data_conditions :: conditions_dict
  data_forecasts :: "forecast_day list"

definition initial_data :: "string \<Rightarrow> resort_data" where
  "initial_data resort_url = \<lparr>
     data_url = resort_url, data_name = None, data_latitude = None, data_longitude = None,
     data_description = None, data_region = None, data_altitude_min = None,
     data_altitude_max = None,
     data_conditions = \<lparr> cond_snow_depth_mountain = None, cond_snow_depth_valley = None,
                          cond_status = None \<rparr>,
     data_forecasts = [] \<rparr>"

text \<open>
  \<^verbatim>\<open>x.get(k)\<close>: only a dictionary has the method; a missing key gives \<^verbatim>\<open>None\<close>.
  \<^verbatim>\<open>float(x)\<close> and \<^verbatim>\<open>x[:1000]\<close> on a JSON value. A number beyond the range of a
  double can only be an integer, and \<^verbatim>\<open>float\<close> of it raises \<^verbatim>\<open>OverflowError\<close>.
\<close>

definition py_get :: "json \<Rightarrow> string \<Rightarrow> py_error + json" where
  "py_get x k =
     (case x of
        JObj kvs \<Rightarrow> Inr (case map_of kvs k of None \<Rightarrow> JNull | Some v \<Rightarrow> v)
      | _ \<Rightarrow> Inl AttributeError)"

definition float_of_json :: "pylib \<Rightarrow> json \<Rightarrow> py_error + real" where
  "float_of_json lib x =
     (case x of
        JNum r \<Rightarrow> if \<bar>r\<bar> < 2 ^ 1024 - 2 ^ 970 then Inr r else Inl OverflowError
      | JBool b \<Rightarrow> Inr (if b then 1 else 0)
      | JStr s \<Rightarrow> (case py_float lib s of None \<Rightarrow> Inl ValueError | Some r \<Rightarrow> Inr r)
      | _ \<Rightarrow> Inl TypeError)"

definition slice_1000 :: "json \<Rightarrow> py_error + json" where
  "slice_1000 x =
     (case x of
        JStr s \<Rightarrow> Inr (JStr (take 1000 s))
      | JArr xs \<Rightarrow> Inr (JArr (take 1000 xs))
      | _ \<Rightarrow> Inl TypeError)"

text \<open>
  The statements inside \<^verbatim>\<open>for item in items\<close>. Each returns the dictionary as it stands
  and the exception raised, if any: what was assigned before the exception stays assigned.
\<close>

definition read_geo :: "pylib \<Rightarrow> json \<Rightarrow> resort_data \<Rightarrow> resort_data \<times> py_error option" where
  "read_geo lib geo data =
     (if truthy geo then
        (case py_get geo ''latitude'' of
           Inl e \<Rightarrow> (data, Some e)
         | Inr v \<Rightarrow>
           (case float_of_json lib v of
              Inl e \<Rightarrow> (data, Some e)
            | Inr lat \<Rightarrow>
              (case py_get geo ''longitude'' of
                 Inl e \<Rightarrow> (data\<lparr> data_latitude := Some lat \<rparr>, Some e)
               | Inr w \<Rightarrow>
                 (case float_of_json lib w of
                    Inl e \<Rightarrow> (data\<lparr> data_latitude := Some lat \<rparr>, Some e)
                  | Inr lng \<Rightarrow>
                      (data\<lparr> data_latitude := Some lat, data_longitude := Some lng \<rparr>, None)))))
      else (data, None))"

definition read_description ::
  "(string \<times> json) list \<Rightarrow> resort_data \<Rightarrow> resort_data \<times> py_error option" where
  "read_description item data =
     (case map_of item ''description'' of
        None \<Rightarrow> (data, None)
      | Some d \<Rightarrow>
        (case slice_1000 d of
           Inl e \<Rightarrow> (data, Some e)
         | Inr text \<Rightarrow> (data\<lparr> data_description := Some text \<rparr>, None)))"

definition read_region ::
  "(string \<times> json) list \<Rightarrow> resort_data \<Rightarrow> resort_data \<times> py_error option" where
  "read_region item data =
     (case map_of item ''address'' of
        None \<Rightarrow> (data, None)
      | Some address \<Rightarrow>
        (case py_get address ''addressRegion'' of
           Inl e \<Rightarrow> (data, Some e)
         | Inr region \<Rightarrow> (data\<lparr> data_region := Some region \<rparr>, None)))"

definition process_item :: "pylib \<Rightarrow> json \<Rightarrow> resort_data \<Rightarrow> resort_data \<times> py_error option" where
  "process_item lib item data =
     (case item of
        JObj kvs \<Rightarrow>
          if map_of kvs ''@type'' = Some (JStr ''SkiResort'') \<or> map_of kvs ''geo'' \<noteq> None
          then
            (case read_geo lib (case map_of kvs ''geo'' of None \<Rightarrow> JObj [] | Some g \<Rightarrow> g) data of
               (data1, Some e) \<Rightarrow> (data1, Some e)
             | (data1, None) \<Rightarrow>
               (case read_description kvs data1 of
                  (data2, Some e) \<Rightarrow> (data2, Some e)
                | (data2, None) \<Rightarrow> read_region kvs data2))
          else (data, None)
      | _ \<Rightarrow> (data, Some AttributeError))"

fun process_items :: "pylib \<Rightarrow> json list \<Rightarrow> resort_data \<Rightarrow> resort_data \<times> py_error option" where
  "process_items lib [] data = (data, None)"
| "process_items lib (item # items) data =
     (case process_item lib item data of
        (data1, Some e) \<Rightarrow> (data1, Some e)
      | (data1, None) \<Rightarrow> process_items lib items data1)"

text \<open>The body of the inner \<^verbatim>\<open>try\<close>, for one script.\<close>

definition process_script :: "pylib \<Rightarrow> ld_script \<Rightarrow> resort_data \<Rightarrow> resort_data \<times> py_error option" where
  "process_script lib script data =
     (case script of
        NoString \<Rightarrow> (data, Some TypeError)
      | NotJson \<Rightarrow> (data, Some JSONDecodeError)
      | Json js_data \<Rightarrow>
          process_items lib (case js_data of JArr items \<Rightarrow> items | _ \<Rightarrow> [js_data]) data)"

text \<open>
  \<^verbatim>\<open>for script in scripts\<close> with
  \<^verbatim>\<open>except (json.JSONDecodeError, TypeError, ValueError, KeyError): continue\<close>: any other
  exception leaves the loop.
\<close>

fun process_scripts :: "pylib \<Rightarrow> ld_script list \<Rightarrow> resort_data \<Rightarrow> resort_data \<times> py_error option" where
  "process_scripts lib [] data = (data, None)"
| "process_scripts lib (script # scripts) data =
     (case process_script lib script data of
        (data1, Some e) \<Rightarrow>
          if e = JSONDecodeError \<or> e = TypeError \<or> e = ValueError \<or> e = KeyError
          then process_scripts lib scripts data1
          else (data1, Some e)
      | (data1, None) \<Rightarrow> process_scripts lib scripts data1)"

text \<open>The passes of \<^verbatim>\<open>scrape_resort\<close> that only assign.\<close>

definition read_title :: "soup \<Rightarrow> resort_data \<Rightarrow> resort_data" where
  "read_title page data =
     (case h1 page of None \<Rightarrow> data | Some title \<Rightarrow> data\<lparr> data_name := Some title \<rparr>)"

definition read_altitude :: "soup \<Rightarrow> resort_data \<Rightarrow> resort_data" where
  "read_altitude page data =
     (case altitude page of
        None \<Rightarrow> data
      | Some (lo, hi) \<Rightarrow> data\<lparr> data_altitude_min := Some lo, data_altitude_max := Some hi \<rparr>)"

definition labelled_value :: "string option option \<Rightarrow> int option" where
  "labelled_value label =
     (case label of Some (Some sibling_text) \<Rightarrow> first_int sibling_text | _ \<Rightarrow> None)"

definition read_snow :: "soup \<Rightarrow> resort_data \<Rightarrow> resort_data" where
  "read_snow page data =
     (if \<not> snow_info page then
        (let c = data_conditions data;
             c1 = (case labelled_value (mountain_label page) of
                     None \<Rightarrow> c | Some v \<Rightarrow> c\<lparr> cond_snow_depth_mountain := Some v \<rparr>);
             c2 = (case labelled_value (valley_label page) of
                     None \<Rightarrow> c1 | Some v \<Rightarrow> c1\<lparr> cond_snow_depth_valley := Some v \<rparr>)
         in data\<lparr> data_conditions := c2 \<rparr>)
      else data)"

definition read_status :: "soup \<Rightarrow> resort_data \<Rightarrow> resort_data" where
  "read_status page data =
     (case status_elem page of
        None \<Rightarrow> data
      | Some status_text \<Rightarrow>
          data\<lparr> data_conditions := (data_conditions data)\<lparr> cond_status :=
            Some (if contains status_text ''open'' then ''open''
                  else if contains status_text ''closed'' then ''closed''
                  else ''partial'') \<rparr> \<rparr>)"

text \<open>
  The outer \<^verbatim>\<open>try\<close> block up to the forecast: passes 1 to 5 in order. Only the JSON-LD
  pass can raise.
\<close>

definition extract_fields :: "pylib \<Rightarrow> soup \<Rightarrow> resort_data \<Rightarrow> resort_data \<times> py_error option" where
  "extract_fields lib page data =
     (case process_scripts lib (ld_json page) (read_title page data) of
        (data2, Some e) \<Rightarrow> (data2, Some e)
      | (data2, None) \<Rightarrow> (read_status page (read_snow page (read_altitude page data2)), None))"

text \<open>
  \<^verbatim>\<open>scrape_resort\<close>. \<^verbatim>\<open>fetch_url\<close> and \<^verbatim>\<open>parse_html\<close> are called before the \<^verbatim>\<open>try\<close>;
  inside it every exception, also one that leaves \<^verbatim>\<open>scrape_forecast\<close>, is answered by
  \<^verbatim>\<open>return None\<close>.
\<close>

definition scrape_resort ::
  "pylib \<Rightarrow> config \<Rightarrow> (json \<Rightarrow> py_error + soup) \<Rightarrow> real \<Rightarrow> string \<Rightarrow> scraper
     \<Rightarrow> (py_error + resort_data option) \<times> scraper" where
  "scrape_resort lib cfg parse_html current_date resort_url st =
     (case fetch_url lib cfg resort_url True st of
        (Inl e, st1) \<Rightarrow> (Inl e, st1)
      | (Inr None, st1) \<Rightarrow> (Inr None, st1)
      | (Inr (Some html), st1) \<Rightarrow>
          if \<not> truthy html then (Inr None, st1)
          else
            (case parse_html html of
               Inl e \<Rightarrow> (Inl e, st1)
             | Inr page \<Rightarrow>
               (case extract_fields lib page (initial_data resort_url) of
                  (data, Some e) \<Rightarrow> (Inr None, st1)
                | (data, None) \<Rightarrow>
                  (case scrape_forecast lib cfg parse_html current_date resort_url st1 of
                     (Inl e, st2) \<Rightarrow> (Inr None, st2)
                   | (Inr forecast_data, st2) \<Rightarrow>
                       (Inr (Some (if forecast_data \<noteq> []
                                   then data\<lparr> data_forecasts := forecast_data \<rparr>
                                   else data)), st2)))))"

text \<open>
  The keys that the JSON-LD pass never assigns have the same values in two dictionaries.
\<close>

definition kept :: "resort_data \<Rightarrow> resort_data \<Rightarrow> bool" where
  "kept d d' \<longleftrightarrow> data_url d' = data_url d \<and> data_name d' = data_name d
     \<and> data_altitude_min d' = data_altitude_min d \<and> data_altitude_max d' = data_altitude_max d
     \<and> data_conditions d' = data_conditions d \<and> data_forecasts d' = data_forecasts d"

subsection \<open>scrapers/weather\_service.py: get\_forecast\<close>

text \<open>\<^verbatim>\<open>len(x)\<close>, \<^verbatim>\<open>x[i]\<close> with an index, \<^verbatim>\<open>"daily" in x\<close> and \<^verbatim>\<open>int(x)\<close> on a JSON value.\<close>

definition py_len :: "json \<Rightarrow> py_error + nat" where
  "py_len x =
     (case x of
        JArr xs \<Rightarrow> Inr (length xs) | JStr s \<Rightarrow> Inr (length s) | JObj kvs \<Rightarrow> Inr (length kvs)
      | _ \<Rightarrow> Inl TypeError)"

definition py_index :: "json \<Rightarrow> nat \<Rightarrow> py_error + json" where
  "py_index x i =
     (case x of
        JArr xs \<Rightarrow> if i < length xs then Inr (xs ! i) else Inl IndexError
      | JStr s \<Rightarrow> if i < length s then Inr (JStr [s ! i]) else Inl IndexError
      | JObj kvs \<Rightarrow> Inl KeyError
      | _ \<Rightarrow> Inl TypeError)"

definition py_in :: "string \<Rightarrow> json \<Rightarrow> py_error + bool" where
  "py_in k x =
     (case x of
        JObj kvs \<Rightarrow> Inr (map_of kvs k \<noteq> None)
      | JArr xs \<Rightarrow> Inr (JStr k \<in> set xs)
      | JStr s \<Rightarrow> Inr (contains s k)
      | _ \<Rightarrow> Inl TypeError)"

definition int_of_json :: "pylib \<Rightarrow> json \<Rightarrow> py_error + int" where
  "int_of_json lib x =
     (case x of
        JNum r \<Rightarrow> Inr (if 0 \<le> r then \<lfloor>r\<rfloor> else \<lceil>r\<rceil>)
      | JBool b \<Rightarrow> Inr (if b then 1 else 0)
      | JStr s \<Rightarrow> (case py_int lib s of None \<Rightarrow> Inl ValueError | Some n \<Rightarrow> Inr n)
      | _ \<Rightarrow> Inl TypeError)"

definition date_of_json :: "pylib \<Rightarrow> json \<Rightarrow> py_error + py_datetime" where
  "date_of_json lib x =
     (case x of
        JStr s \<Rightarrow> (case fromisoformat lib s of None \<Rightarrow> Inl ValueError | Some d \<Rightarrow> Inr d)
      | _ \<Rightarrow> Inl TypeError)"

text \<open>
  \<^verbatim>\<open>_map_weather_code\<close>: \<^verbatim>\<open>mapping.get(code, "unknown")\<close>. A number finds the key it
  equals, \<^verbatim>\<open>True\<close> and \<^verbatim>\<open>False\<close> find 1 and 0, a list or a dictionary cannot be hashed.
\<close>

definition weather_codes :: "(real \<times> string) list" where
  "weather_codes =
     [(0, ''sunny''), (1, ''mostly_sunny''), (2, ''partly_cloudy''), (3, ''cloudy''),
      (45, ''fog''), (48, ''fog''), (51, ''drizzle''), (53, ''drizzle''), (55, ''drizzle''),
      (61, ''rain''), (63, ''rain''), (65, ''rain''), (71, ''snow''), (73, ''snow''),
      (75, ''snow''), (77, ''snow_grains''), (80, ''rain_showers''), (81, ''rain_showers''),
      (82, ''rain_showers''), (85, ''snow_showers''), (86, ''snow_showers''),
      (95, ''thunderstorm'')]"

definition code_symbol :: "real \<Rightarrow> string" where
  "code_symbol code = (case map_of weather_codes code of None \<Rightarrow> ''unknown'' | Some s \<Rightarrow> s)"

definition map_weather_code :: "json \<Rightarrow> py_error + string" where
  "map_weather_code code =
     (case code of
        JNum r \<Rightarrow> Inr (code_symbol r)
      | JBool b \<Rightarrow> Inr (code_symbol (if b then 1 else 0))
      | JArr xs \<Rightarrow> Inl TypeError
      | JObj kvs \<Rightarrow> Inl TypeError
      | _ \<Rightarrow> Inr ''unknown'')"

text \<open>
  Statements in sequence inside a \<^verbatim>\<open>try\<close>: the first exception ends the sequence.
\<close>

definition py_then :: "py_error + 'a \<Rightarrow> ('a \<Rightarrow> py_error + 'b) \<Rightarrow> py_error + 'b" where
  "py_then m f = (case m of Inl e \<Rightarrow> Inl e | Inr x \<Rightarrow> f x)"

text \<open>The dictionary built in one round of \<^verbatim>\<open>for i in range(len(daily["time"]))\<close>.\<close>

definition api_day :: "pylib \<Rightarrow> json \<Rightarrow> nat \<Rightarrow> py_error + forecast_day" where
  "api_day lib daily i =
     py_then (subscript daily ''time'') (\<lambda>times.
     py_then (py_index times i) (\<lambda>t.
     py_then (date_of_json lib t) (\<lambda>d.
     py_then (subscript daily ''temperature_2m_max'') (\<lambda>maxs.
     py_then (py_index maxs i) (\<lambda>tmax.
     py_then (subscript daily ''temperature_2m_min'') (\<lambda>mins.
     py_then (py_index mins i) (\<lambda>tmin.
     py_then (subscript daily ''snowfall_sum'') (\<lambda>snows.
     py_then (py_index snows i) (\<lambda>snow.
     py_then (int_of_json lib snow) (\<lambda>cm.
     py_then (subscript daily ''weathercode'') (\<lambda>codes.
     py_then (py_index codes i) (\<lambda>code.
     py_then (map_weather_code code) (\<lambda>sym.
       Inr \<lparr> date = d, temp_max = Some tmax, temp_min = Some tmin,
             snow_forecast_cm = Some cm, symbol = Some sym \<rparr>)))))))))))))"

fun api_days :: "pylib \<Rightarrow> json \<Rightarrow> nat list \<Rightarrow> forecast_day list \<Rightarrow> py_error + forecast_day list" where
  "api_days lib daily [] forecasts = Inr forecasts"
| "api_days lib daily (i # rest) forecasts =
     (case api_day lib daily i of
        Inl e \<Rightarrow> Inl e
      | Inr forecast \<Rightarrow> api_days lib daily rest (forecasts @ [forecast]))"

text \<open>
  The \<^verbatim>\<open>try\<close> block of \<^verbatim>\<open>get_forecast\<close>, given what the request to the API met:
  an exception of \<^verbatim>\<open>requests.get\<close>, \<^verbatim>\<open>raise_for_status\<close> or \<^verbatim>\<open>response.json()\<close>, or
  the JSON value \<^verbatim>\<open>data\<close>.
\<close>

definition read_forecast :: "pylib \<Rightarrow> py_error + json \<Rightarrow> py_error + forecast_day list" where
  "read_forecast lib response =
     py_then response (\<lambda>data.
     py_then (py_in ''daily'' data) (\<lambda>present.
       if \<not> present then Inr []
       else
         py_then (subscript data ''daily'') (\<lambda>daily.
         py_then (subscript daily ''time'') (\<lambda>times.
         py_then (py_len times) (\<lambda>n.
           api_days lib daily [0..<n] [])))))"

text \<open>\<^verbatim>\<open>get_forecast\<close>: \<^verbatim>\<open>except Exception\<close> returns \<^verbatim>\<open>[]\<close>.\<close>

definition get_forecast ::
  "pylib \<Rightarrow> (real \<Rightarrow> real \<Rightarrow> py_error + json) \<Rightarrow> real \<Rightarrow> real \<Rightarrow> forecast_day list" where
  "get_forecast lib open_meteo lat lng =
     (case read_forecast lib (open_meteo lat lng) of Inl e \<Rightarrow> [] | Inr forecasts \<Rightarrow> forecasts)"

text \<open>
  The times of the requests that a call of \<^verbatim>\<open>fetch_url\<close> makes first (those of the loop
  round \<^verbatim>\<open>attempt = 0\<close>), and the spacing that holds between a request and a retry that
  follows it.
\<close>

definition first_attempts :: "(real \<times> nat) list \<Rightarrow> real list" where
  "first_attempts entries = map fst (filter (\<lambda>e. snd e = 0) entries)"

definition backoff_kept :: "real \<times> nat \<Rightarrow> real \<times> nat \<Rightarrow> bool" where
  "backoff_kept e1 e2 = (snd e2 = 0 \<or> (snd e2 = Suc (snd e1) \<and> fst e1 + 2 ^ snd e1 \<le> fst e2))"

subsection \<open>Concrete inputs for the examples\<close>

text \<open>
  For the examples the conversions are instantiated with a reader of unsigned decimal
  digit strings, on which \<^verbatim>\<open>int\<close> and \<^verbatim>\<open>float\<close> agree with it; it rejects every
  other string, as the builtins reject \<^verbatim>\<open>'abc'\<close>. The distance is a stand-in, the hash is
  the identity, the database returns the rows in table order, and the datetime functions
  know three strings: the epoch, the day after it (the only two times the examples write),
  and the epoch with a UTC offset.
\<close>

definition digit_val :: "char \<Rightarrow> nat option" where
  "digit_val c =
     (if CHR ''0'' \<le> c \<and> c \<le> CHR ''9'' then Some (of_char c - 48) else None)"

fun read_digits :: "nat \<Rightarrow> string \<Rightarrow> nat option" where
  "read_digits acc [] = Some acc"
| "read_digits acc (c # cs) =
     (case digit_val c of None \<Rightarrow> None | Some d \<Rightarrow> read_digits (10 * acc + d) cs)"

definition read_decimal :: "string \<Rightarrow> nat option" where
  "read_decimal s = (if s = [] then None else read_digits 0 s)"

definition example_lib :: pylib where
  "example_lib = \<lparr>
     py_int = (\<lambda>s. map_option int (read_decimal s)),
     py_float = (\<lambda>s. map_option real (read_decimal s)),
     geodesic_km = (\<lambda>a b. Inr (\<bar>fst a - fst b\<bar> + \<bar>snd a - snd b\<bar>)),
     py_round1 = (\<lambda>d. d),
     md5_hexdigest = (\<lambda>s. s),
     isoformat = (\<lambda>t. if t = 0 then ''1970-01-01T00:00:00'' else ''1970-01-02T00:00:00''),
     fromisoformat = (\<lambda>s. if s = ''1970-01-01T00:00:00'' then Some (Naive 0)
                          else if s = ''1970-01-02T00:00:00'' then Some (Naive 86400)
                          else if s = ''1970-01-01T00:00:00+00:00'' then Some (Aware 0)
                          else None),
     row_order = (\<lambda>tables rows. rows) \<rparr>"

definition example_resort :: "string \<Rightarrow> int option \<Rightarrow> real option \<Rightarrow> resort" where
  "example_resort nm snow price = \<lparr>
     name = nm, slug = nm, country = ''Switzerland'', latitude = 46, longitude = 7,
     conditions = (case snow of None \<Rightarrow> None
                   | Some s \<Rightarrow> Some \<lparr> snow_depth_valley = None, snow_depth_mountain = Some s,
                                     slopes_open_km = None, status = Some ''open'' \<rparr>),
     pricing = (case price of None \<Rightarrow> None
                | Some p \<Rightarrow> Some \<lparr> adult_day_pass = Some p, child_day_pass = None \<rparr>) \<rparr>"

definition example_items :: "resort_dict list" where
  "example_items =
     [\<lparr> row = example_resort ''A'' (Some 50) None, distance_km = 1 \<rparr>,
      \<lparr> row = example_resort ''B'' (Some 100) (Some 80), distance_km = 2 \<rparr>,
      \<lparr> row = example_resort ''C'' (Some 100) (Some 60), distance_km = 3 \<rparr>]"

text \<open>
  A scraper at time \<open>t\<close> whose last request was at time 0, with the given cache files and
  a network on which every request takes no time and meets \<open>answer\<close>.
\<close>

definition example_scraper ::
  "real \<Rightarrow> (string \<rightharpoonup> json option) \<Rightarrow> (nat \<Rightarrow> string option) \<Rightarrow> scraper" where
  "example_scraper t files answer = \<lparr>
     clock = t, last_request_time = 0, cache_files = files,
     network = (\<lambda>i url. \<lparr> body = answer i, duration = 0 \<rparr>),
     request_log = [], sleep_log = [] \<rparr>"

definition example_empty_entry :: json where
  "example_empty_entry = JObj [(''timestamp'', JStr ''1970-01-01T00:00:00''), (''data'', JStr [])]"

text \<open>
  A resort page with a title, an altitude band, a mountain snow depth and a status, and the
  given JSON-LD scripts; and a forecast page with the given day elements.
\<close>

definition example_page :: "ld_script list \<Rightarrow> soup" where
  "example_page scripts = \<lparr>
     h1 = Some ''Zermatt'', ld_json = scripts, altitude = Some (1620, 3883),
     snow_info = False, mountain_label = Some (Some ''180 cm''), valley_label = None,
     status_elem = Some ''open'', forecast_container = None \<rparr>"

definition example_forecast_page :: "day_el list \<Rightarrow> soup" where
  "example_forecast_page days = \<lparr>
     h1 = None, ld_json = [], altitude = None, snow_info = False, mountain_label = None,
     valley_label = None, status_elem = None, forecast_container = Some days \<rparr>"

text \<open>
  A JSON-LD block of a resort whose \<^verbatim>\<open>address\<close> is a plain string, which schema.org
  allows.
\<close>

definition example_ld_text_address :: json where
  "example_ld_text_address =
     JObj [(''@type'', JStr ''SkiResort''),
           (''geo'', JObj [(''latitude'', JNum 45), (''longitude'', JNum 7)]),
           (''address'', JStr ''Zermatt, Valais'')]"

section \<open>Theorems\<close>

lemma read_decimal_60: "read_decimal ''60'' = Some 60"
  by (simp add: read_decimal_def digit_val_def)

lemma read_decimal_70: "read_decimal ''70'' = Some 70"
  by (simp add: read_decimal_def digit_val_def)

subsection \<open>Facts about the filter pipeline\<close>

lemma join_conditions_selected:
  assumes "\<not> P None"
  shows "selected (join_conditions (\<lambda>c. P (f c)) q) =
     filter (\<lambda>r. P (case conditions r of None \<Rightarrow> None | Some c \<Rightarrow> f c)) (selected q)"
  using assms by (auto simp add: join_conditions_def intro!: filter_cong split: option.splits)

lemma join_pricing_selected:
  assumes "\<not> P None"
  shows "selected (join_pricing (\<lambda>c. P (f c)) q) =
     filter (\<lambda>r. P (case pricing r of None \<Rightarrow> None | Some c \<Rightarrow> f c)) (selected q)"
  using assms by (auto simp add: join_pricing_def intro!: filter_cong split: option.splits)

lemma join_simps:
  "joined (join_conditions c q) = joined q @ [''conditions'']"
  "int_params (join_conditions c q) = int_params q"
  "joined (join_pricing p q) = joined q @ [''pricing'']"
  "int_params (join_pricing p q) = int_params q"
  by (simp_all add: join_conditions_def join_pricing_def)

text \<open>Each block, once its value converts: what it selects, joins and binds.\<close>

lemma filter_min_snow_Inr:
  assumes "\<not> (has_value filters ''min_snow'' \<and> py_int lib (the (filters ''min_snow'')) = None)"
  shows "\<exists>q'. filter_min_snow lib q filters = Inr q'
    \<and> selected q' = filter (\<lambda>r. case (if has_value filters ''min_snow''
                    then py_int lib (the (filters ''min_snow'')) else None) of
                  None \<Rightarrow> True | Some n \<Rightarrow> sql_ge (mountain_snow r) n) (selected q)
    \<and> joined q' = joined q @ (if has_value filters ''min_snow'' then [''conditions''] else [])
    \<and> int_params q' = int_params q @ (case (if has_value filters ''min_snow''
                    then py_int lib (the (filters ''min_snow'')) else None) of
                  None \<Rightarrow> [] | Some n \<Rightarrow> [n])"
proof (cases "has_value filters ''min_snow''")
  case False
  then show ?thesis by (simp add: filter_min_snow_def)
next
  case True
  with assms obtain n where n: "py_int lib (the (filters ''min_snow'')) = Some n" by auto
  have "selected (join_conditions (\<lambda>c. sql_ge (snow_depth_mountain c) n) q)
        = filter (\<lambda>r. sql_ge (mountain_snow r) n) (selected q)"
    unfolding mountain_snow_def
    by (rule join_conditions_selected[where P="\<lambda>x. sql_ge x n"]) (simp add: sql_ge_def)
  with True n show ?thesis by (simp add: filter_min_snow_def join_simps)
qed

lemma filter_status_eq:
  "selected (filter_status q filters) =
     filter (\<lambda>r. case text_value filters ''status'' of
                  None \<Rightarrow> True | Some s \<Rightarrow> sql_eq (operating_status r) s) (selected q)
   \<and> joined (filter_status q filters)
       = joined q @ (if has_value filters ''status'' then [''conditions''] else [])
   \<and> int_params (filter_status q filters) = int_params q"
proof (cases "has_value filters ''status''")
  case False
  then show ?thesis by (simp add: filter_status_def text_value_def)
next
  case True
  then obtain s where s: "filters ''status'' = Some s"
    by (auto simp: has_value_def split: option.splits)
  have "selected (join_conditions (\<lambda>c. sql_eq (status c) s) q)
        = filter (\<lambda>r. sql_eq (operating_status r) s) (selected q)"
    unfolding operating_status_def
    by (rule join_conditions_selected[where P="\<lambda>x. sql_eq x s"]) (simp add: sql_eq_def)
  with True s show ?thesis by (simp add: filter_status_def text_value_def join_simps)
qed

lemma filter_min_slopes_Inr:
  assumes "\<not> (has_value filters ''min_slopes'' \<and> py_float lib (the (filters ''min_slopes'')) = None)"
  shows "\<exists>q'. filter_min_slopes lib q filters = Inr q'
    \<and> selected q' = filter (\<lambda>r. case (if has_value filters ''min_slopes''
                    then py_float lib (the (filters ''min_slopes'')) else None) of
                  None \<Rightarrow> True | Some x \<Rightarrow> sql_ge (open_slopes r) x) (selected q)
    \<and> joined q' = joined q @ (if has_value filters ''min_slopes'' then [''conditions''] else [])
    \<and> int_params q' = int_params q"
proof (cases "has_value filters ''min_slopes''")
  case False
  then show ?thesis by (simp add: filter_min_slopes_def)
next
  case True
  with assms obtain x where x: "py_float lib (the (filters ''min_slopes'')) = Some x" by auto
  have "selected (join_conditions (\<lambda>c. sql_ge (slopes_open_km c) x) q)
        = filter (\<lambda>r. sql_ge (open_slopes r) x) (selected q)"
    unfolding open_slopes_def
    by (rule join_conditions_selected[where P="\<lambda>v. sql_ge v x"]) (simp add: sql_ge_def)
  with True x show ?thesis by (simp add: filter_min_slopes_def join_simps)
qed

lemma filter_max_price_Inr:
  assumes "\<not> (has_value filters ''max_price'' \<and> py_float lib (the (filters ''max_price'')) = None)"
  shows "\<exists>q'. filter_max_price lib q filters = Inr q'
    \<and> selected q' = filter (\<lambda>r. case (if has_value filters ''max_price''
                    then py_float lib (the (filters ''max_price'')) else None) of
                  None \<Rightarrow> True | Some x \<Rightarrow> sql_le (adult_price r) x) (selected q)
    \<and> joined q' = joined q @ (if has_value filters ''max_price'' then [''pricing''] else [])
    \<and> int_params q' = int_params q"
proof (cases "has_value filters ''max_price''")
  case False
  then show ?thesis by (simp add: filter_max_price_def)
next
  case True
  with assms obtain x where x: "py_float lib (the (filters ''max_price'')) = Some x" by auto
  have "selected (join_pricing (\<lambda>p. sql_le (adult_day_pass p) x) q)
        = filter (\<lambda>r. sql_le (adult_price r) x) (selected q)"
    unfolding adult_price_def
    by (rule join_pricing_selected[where P="\<lambda>v. sql_le v x"]) (simp add: sql_le_def)
  with True x show ?thesis by (simp add: filter_max_price_def join_simps)
qed

lemma filter_country_eq:
  "selected (filter_country q filters) =
     filter (\<lambda>r. case text_value filters ''country'' of
                  None \<Rightarrow> True | Some c \<Rightarrow> country r = c) (selected q)
   \<and> joined (filter_country q filters) = joined q
   \<and> int_params (filter_country q filters) = int_params q"
proof (cases "has_value filters ''country''")
  case False
  then show ?thesis by (simp add: filter_country_def text_value_def)
next
  case True
  then obtain s where s: "filters ''country'' = Some s"
    by (auto simp: has_value_def split: option.splits)
  with True show ?thesis by (simp add: filter_country_def text_value_def)
qed

text \<open>
  The query that \<^verbatim>\<open>apply_filters\<close> builds when the numeric values convert: it selects
  the conjunction of the present predicates, and it joins \<^verbatim>\<open>Conditions\<close> once for each
  of \<^verbatim>\<open>min_snow\<close>, \<^verbatim>\<open>status\<close> and \<^verbatim>\<open>min_slopes\<close> that is present.
\<close>

lemma apply_filters_query:
  assumes "coerce_filters lib filters = Some fs"
  shows "\<exists>q. apply_filters lib (session_query db) filters = Inr q
    \<and> selected q = filter (spec_survives fs) db
    \<and> joined q = (if has_value filters ''min_snow'' then [''conditions''] else [])
                 @ (if has_value filters ''status'' then [''conditions''] else [])
                 @ (if has_value filters ''min_slopes'' then [''conditions''] else [])
                 @ (if has_value filters ''max_price'' then [''pricing''] else [])
    \<and> int_params q = (case min_snow fs of None \<Rightarrow> [] | Some n \<Rightarrow> [n])"
proof -
  from assms have
    ok1: "\<not> (has_value filters ''min_snow'' \<and> py_int lib (the (filters ''min_snow'')) = None)" and
    ok2: "\<not> (has_value filters ''min_slopes'' \<and> py_float lib (the (filters ''min_slopes'')) = None)" and
    ok3: "\<not> (has_value filters ''max_price'' \<and> py_float lib (the (filters ''max_price'')) = None)"
    unfolding coerce_filters_def by (metis option.distinct(1))+
  from assms ok1 ok2 ok3 have fs: "fs = \<lparr>
        min_snow = (if has_value filters ''min_snow''
                    then py_int lib (the (filters ''min_snow'')) else None),
        status_is = text_value filters ''status'',
        min_slopes = (if has_value filters ''min_slopes''
                      then py_float lib (the (filters ''min_slopes'')) else None),
        max_price = (if has_value filters ''max_price''
                     then py_float lib (the (filters ''max_price'')) else None),
        country_is = text_value filters ''country'' \<rparr>"
    unfolding coerce_filters_def by simp
  have f1: "min_snow fs = (if has_value filters ''min_snow''
                    then py_int lib (the (filters ''min_snow'')) else None)"
    and f2: "status_is fs = text_value filters ''status''"
    and f3: "min_slopes fs = (if has_value filters ''min_slopes''
                      then py_float lib (the (filters ''min_slopes'')) else None)"
    and f4: "max_price fs = (if has_value filters ''max_price''
                     then py_float lib (the (filters ''max_price'')) else None)"
    and f5: "country_is fs = text_value filters ''country''"
    by (simp_all add: fs)
  let ?q0 = "session_query db"
  have q0: "selected ?q0 = db" "joined ?q0 = []" "int_params ?q0 = []"
    by (simp_all add: session_query_def)
  from filter_min_snow_Inr[OF ok1, of ?q0] obtain q1 where
    q1: "filter_min_snow lib ?q0 filters = Inr q1"
      "selected q1 = filter (\<lambda>r. case min_snow fs of
                  None \<Rightarrow> True | Some n \<Rightarrow> sql_ge (mountain_snow r) n) db"
      "joined q1 = [] @ (if has_value filters ''min_snow'' then [''conditions''] else [])"
      "int_params q1 = [] @ (case min_snow fs of None \<Rightarrow> [] | Some n \<Rightarrow> [n])"
    unfolding f1 q0 by blast
  let ?q2 = "filter_status q1 filters"
  from filter_min_slopes_Inr[OF ok2, of ?q2] obtain q3 where
    q3: "filter_min_slopes lib ?q2 filters = Inr q3"
      "selected q3 = filter (\<lambda>r. case min_slopes fs of
                  None \<Rightarrow> True | Some x \<Rightarrow> sql_ge (open_slopes r) x) (selected ?q2)"
      "joined q3 = joined ?q2 @ (if has_value filters ''min_slopes'' then [''conditions''] else [])"
      "int_params q3 = int_params ?q2"
    unfolding f3 by blast
  from filter_max_price_Inr[OF ok3, of q3] obtain q4 where
    q4: "filter_max_price lib q3 filters = Inr q4"
      "selected q4 = filter (\<lambda>r. case max_price fs of
                  None \<Rightarrow> True | Some x \<Rightarrow> sql_le (adult_price r) x) (selected q3)"
      "joined q4 = joined q3 @ (if has_value filters ''max_price'' then [''pricing''] else [])"
      "int_params q4 = int_params q3"
    unfolding f4 by blast
  let ?q5 = "filter_country q4 filters"
  have run: "apply_filters lib ?q0 filters = Inr ?q5"
    by (simp add: apply_filters_def q1(1) q3(1) q4(1))
  have "selected ?q5 =
        filter (\<lambda>r. case country_is fs of None \<Rightarrow> True | Some c \<Rightarrow> country r = c)
         (filter (\<lambda>r. case max_price fs of None \<Rightarrow> True | Some x \<Rightarrow> sql_le (adult_price r) x)
          (filter (\<lambda>r. case min_slopes fs of None \<Rightarrow> True | Some x \<Rightarrow> sql_ge (open_slopes r) x)
           (filter (\<lambda>r. case status_is fs of None \<Rightarrow> True | Some s \<Rightarrow> sql_eq (operating_status r) s)
            (filter (\<lambda>r. case min_snow fs of None \<Rightarrow> True | Some n \<Rightarrow> sql_ge (mountain_snow r) n)
              db))))"
    by (simp only: filter_country_eq filter_status_eq q4(2) q3(2) q1(2) f2 f5)
  also have "\<dots> = filter (spec_survives fs) db"
    unfolding filter_filter spec_survives_def
    by (intro filter_cong refl) blast
  finally have sel: "selected ?q5 = filter (spec_survives fs) db" .
  have jn: "joined ?q5 = (if has_value filters ''min_snow'' then [''conditions''] else [])
                 @ (if has_value filters ''status'' then [''conditions''] else [])
                 @ (if has_value filters ''min_slopes'' then [''conditions''] else [])
                 @ (if has_value filters ''max_price'' then [''pricing''] else [])"
    by (simp only: filter_country_eq filter_status_eq q4(3) q3(3) q1(3) append_assoc append_Nil)
  have ip: "int_params ?q5 = (case min_snow fs of None \<Rightarrow> [] | Some n \<Rightarrow> [n])"
    by (simp only: filter_country_eq filter_status_eq q4(4) q3(4) q1(4) append_Nil)
  from run sel jn ip show ?thesis by blast
qed

text \<open>
  So the pipeline is the conjunction whenever at most one of the three filters on
  \<^verbatim>\<open>Conditions\<close> is present and \<^verbatim>\<open>min_snow\<close> fits 64 bits: the rows that come back are
  those that satisfy every present predicate, in the order of the database.
\<close>

lemma filtered_rows_conjunction:
  assumes "coerce_filters lib filters = Some fs"
    and "length (filter (has_value filters) [''min_snow'', ''status'', ''min_slopes'']) \<le> 1"
    and "case min_snow fs of None \<Rightarrow> True | Some n \<Rightarrow> - (2 ^ 63) \<le> n \<and> n < 2 ^ 63"
    and "\<And>tables rows. mset (row_order lib tables rows) = mset rows"
  shows "\<exists>rs. filtered_rows lib db filters = Inr rs
           \<and> mset rs = mset (filter (spec_survives fs) db)"
proof -
  from apply_filters_query[OF assms(1), of db] obtain q where
    q: "apply_filters lib (session_query db) filters = Inr q"
      "selected q = filter (spec_survives fs) db"
      "joined q = (if has_value filters ''min_snow'' then [''conditions''] else [])
                 @ (if has_value filters ''status'' then [''conditions''] else [])
                 @ (if has_value filters ''min_slopes'' then [''conditions''] else [])
                 @ (if has_value filters ''max_price'' then [''pricing''] else [])"
      "int_params q = (case min_snow fs of None \<Rightarrow> [] | Some n \<Rightarrow> [n])"
    by blast
  have d: "distinct (joined q)"
    unfolding q(3) using assms(2) by (simp split: if_splits)
  have p: "filter (\<lambda>n. n < - (2 ^ 63) \<or> 2 ^ 63 \<le> n) (int_params q) = []"
    unfolding q(4) using assms(3) by (simp split: option.splits)
  have "query_all lib q = Inr (row_order lib (joined q) (selected q))"
    by (simp only: query_all_def d p simp_thms if_False)
  then have "filtered_rows lib db filters = Inr (row_order lib (joined q) (selected q))"
    by (simp only: filtered_rows_def q(1) sum.case)
  with assms(4) q(2) show ?thesis by simp
qed

text \<open>
  The example of the specification: of the resorts with snow 50, price 80 and snow 100,
  price 60, the filters \<^verbatim>\<open>min_snow=60\<close> and \<^verbatim>\<open>max_price=70\<close> keep exactly the second.
\<close>

lemma filtered_rows_example:
  "filtered_rows example_lib
       [example_resort ''A'' (Some 50) (Some 80), example_resort ''B'' (Some 100) (Some 60)]
       [''min_snow'' \<mapsto> ''60'', ''max_price'' \<mapsto> ''70'']
     = Inr [example_resort ''B'' (Some 100) (Some 60)]"
  by (simp add: filtered_rows_def session_query_def query_all_def apply_filters_def
      filter_min_snow_def filter_status_def filter_min_slopes_def filter_max_price_def
      filter_country_def has_value_def join_conditions_def join_pricing_def example_lib_def
      read_decimal_60 read_decimal_70 example_resort_def sql_ge_def sql_le_def)

subsection \<open>C1: the filter pipeline is a conjunction of the present predicates\<close>

text \<open>
  Claim C1: for every dataset and every filter specification, a resort survives
  \<^verbatim>\<open>apply_filters\<close> iff it satisfies every predicate whose filter value is present. The
  code builds that conjunction (\<open>apply_filters_query\<close>), and the query gives it back when
  at most one of \<^verbatim>\<open>min_snow\<close>, \<^verbatim>\<open>status\<close>, \<^verbatim>\<open>min_slopes\<close> is present
  (\<open>filtered_rows_conjunction\<close>, \<open>filtered_rows_example\<close>). But each of these three blocks
  calls \<^verbatim>\<open>query.join(Conditions)\<close>, so with two of them the statement joins the table
  twice and \<^verbatim>\<open>query.all()\<close> raises: with \<^verbatim>\<open>min_snow=60\<close> and \<^verbatim>\<open>status=open\<close>, where
  the conjunction keeps the second resort of the example, the code returns no rows but
  \<^verbatim>\<open>OperationalError\<close>, and the search answers 500.
\<close>

theorem apply_filters_repeated_join:
  "coerce_filters example_lib [''min_snow'' \<mapsto> ''60'', ''status'' \<mapsto> ''open'']
     = Some \<lparr> min_snow = Some 60, status_is = Some ''open'', min_slopes = None,
              max_price = None, country_is = None \<rparr>
   \<and> filter (spec_survives \<lparr> min_snow = Some 60, status_is = Some ''open'', min_slopes = None,
              max_price = None, country_is = None \<rparr>)
       [example_resort ''A'' (Some 50) (Some 80), example_resort ''B'' (Some 100) (Some 60)]
     = [example_resort ''B'' (Some 100) (Some 60)]
   \<and> filtered_rows example_lib
       [example_resort ''A'' (Some 50) (Some 80), example_resort ''B'' (Some 100) (Some 60)]
       [''min_snow'' \<mapsto> ''60'', ''status'' \<mapsto> ''open'']
     = Inl OperationalError
   \<and> search_resorts example_lib
       [example_resort ''A'' (Some 50) (Some 80), example_resort ''B'' (Some 100) (Some 60)]
       [''lat'' \<mapsto> ''46'', ''lng'' \<mapsto> ''7'', ''min_snow'' \<mapsto> ''60'', ''status'' \<mapsto> ''open'']
     = Error_500"
proof (intro conjI)
  show "coerce_filters example_lib [''min_snow'' \<mapsto> ''60'', ''status'' \<mapsto> ''open'']
     = Some \<lparr> min_snow = Some 60, status_is = Some ''open'', min_slopes = None,
              max_price = None, country_is = None \<rparr>"
    by (simp add: coerce_filters_def has_value_def text_value_def example_lib_def read_decimal_60)
  show "filter (spec_survives \<lparr> min_snow = Some 60, status_is = Some ''open'', min_slopes = None,
              max_price = None, country_is = None \<rparr>)
       [example_resort ''A'' (Some 50) (Some 80), example_resort ''B'' (Some 100) (Some 60)]
     = [example_resort ''B'' (Some 100) (Some 60)]"
    by (simp add: spec_survives_def example_resort_def mountain_snow_def operating_status_def
        sql_ge_def sql_eq_def)
  show "filtered_rows example_lib
       [example_resort ''A'' (Some 50) (Some 80), example_resort ''B'' (Some 100) (Some 60)]
       [''min_snow'' \<mapsto> ''60'', ''status'' \<mapsto> ''open'']
     = Inl OperationalError"
    by (simp add: filtered_rows_def session_query_def query_all_def apply_filters_def
        filter_min_snow_def filter_status_def filter_min_slopes_def filter_max_price_def
        filter_country_def has_value_def join_conditions_def example_lib_def read_decimal_60)
  show "search_resorts example_lib
       [example_resort ''A'' (Some 50) (Some 80), example_resort ''B'' (Some 100) (Some 60)]
       [''lat'' \<mapsto> ''46'', ''lng'' \<mapsto> ''7'', ''min_snow'' \<mapsto> ''60'', ''status'' \<mapsto> ''open'']
     = Error_500"
    by (simp add: search_resorts_def search_located_def Let_def args_get_float_def
        filtered_rows_def session_query_def query_all_def apply_filters_def
        filter_min_snow_def filter_status_def filter_min_slopes_def filter_max_price_def
        filter_country_def has_value_def join_conditions_def example_lib_def read_decimal_def
        digit_val_def)
qed

subsection \<open>C7: which parameter issues are errors\<close>


















subsection \<open>C8: sorting by price\<close>

lemma py_sort_Inr:
  "None \<notin> set (map key xs) \<Longrightarrow> py_sort key xs = Inr (sort_key key xs)"
  by (simp add: py_sort_def)

lemma sort_results_price:
  "sort_results ''price'' xs = py_sort price_key xs"
  by (simp add: sort_results_def)

lemma price_key_no_pricing: "pricing (row x) = None \<Longrightarrow> price_key x = Some 999"
  by (simp add: price_key_def)

lemma price_key_priced: "adult_price (row x) = Some c \<Longrightarrow> price_key x = Some c"
  by (auto simp: price_key_def adult_price_def split: option.splits)

text \<open>
  A pricing row whose \<^verbatim>\<open>adult_day_pass\<close> is NULL has the key \<^verbatim>\<open>None\<close>, and among two
  records or more the comparison of the sort raises.
\<close>

lemma price_sort_null_price:
  assumes "None \<in> set (map price_key nearby)" and "2 \<le> length nearby"
  shows "sort_results ''price'' nearby = Inl TypeError"
  using assms by (simp add: sort_results_price py_sort_def)

text \<open>
  Claim C8, amended. Provided that no record to be sorted has a pricing row whose adult
  day-pass price is NULL (every key is a number, \<open>None \<notin> set (map price_key nearby)\<close>):
  sorted by price, a record without pricing has the key 999, and the sort returns a
  permutation of its input in ascending order of that key, so the priced records are in
  ascending price order, and a record without pricing comes after every record priced
  below 999 and before every record priced above 999. Nothing is claimed of a list that
  holds a NULL price.
\<close>

theorem price_sort_sentinel:
  assumes "None \<notin> set (map price_key nearby)"
  shows "\<exists>ys. sort_results ''price'' nearby = Inr ys
           \<and> mset ys = mset nearby
           \<and> sorted (map price_key ys)
           \<and> (\<forall>i j c. i < length ys \<and> j < length ys
                 \<and> pricing (row (ys ! i)) = None
                 \<and> adult_price (row (ys ! j)) = Some c
                 \<longrightarrow> (c < 999 \<longrightarrow> j < i) \<and> (999 < c \<longrightarrow> i < j))"
proof -
  let ?ys = "sort_key price_key nearby"
  have res: "sort_results ''price'' nearby = Inr ?ys"
    using assms by (simp add: sort_results_price py_sort_Inr)
  have srt: "sorted (map price_key ?ys)" by (rule sorted_sort_key)
  have pos: "(c < 999 \<longrightarrow> j < i) \<and> (999 < c \<longrightarrow> i < j)"
    if "i < length ?ys" "j < length ?ys" "pricing (row (?ys ! i)) = None"
      "adult_price (row (?ys ! j)) = Some c" for i j c
  proof -
    have ki: "price_key (?ys ! i) = Some 999" using that(3) by (rule price_key_no_pricing)
    have kj: "price_key (?ys ! j) = Some c" using that(4) by (rule price_key_priced)
    have mono: "a \<le> b \<Longrightarrow> b < length ?ys \<Longrightarrow> price_key (?ys ! a) \<le> price_key (?ys ! b)" for a b
      using srt by (simp add: sorted_iff_nth_mono)
    show ?thesis
    proof (intro conjI impI)
      assume "c < 999"
      show "j < i"
      proof (rule ccontr)
        assume "\<not> j < i"
        then have "i \<le> j" by simp
        from mono[OF this that(2)] ki kj have "(999::real) \<le> c" by simp
        with \<open>c < 999\<close> show False by simp
      qed
    next
      assume "999 < c"
      show "i < j"
      proof (rule ccontr)
        assume "\<not> i < j"
        then have "j \<le> i" by simp
        from mono[OF this that(1)] ki kj have "c \<le> (999::real)" by simp
        with \<open>999 < c\<close> show False by simp
      qed
    qed
  qed
  show ?thesis
    by (rule exI[of _ ?ys]) (use res srt pos in \<open>simp\<close>)
qed

theorem price_sort_sentinel_witness:
  "None \<notin> set (map price_key example_items)
   \<and> (\<exists>ys. sort_results ''price'' example_items = Inr ys
           \<and> mset ys = mset example_items
           \<and> sorted (map price_key ys)
           \<and> (\<forall>i j c. i < length ys \<and> j < length ys
                 \<and> pricing (row (ys ! i)) = None
                 \<and> adult_price (row (ys ! j)) = Some c
                 \<longrightarrow> (c < 999 \<longrightarrow> j < i) \<and> (999 < c \<longrightarrow> i < j)))"
proof -
  have h: "None \<notin> set (map price_key example_items)"
    by (simp add: example_items_def price_key_def example_resort_def)
  from h price_sort_sentinel [OF h] show ?thesis by (rule conjI)
qed

text \<open>On that input the unpriced resort A comes last, after C (60) and B (80).\<close>

lemma price_sort_example:
  "sort_results ''price'' example_items
   = Inr [\<lparr> row = example_resort ''C'' (Some 100) (Some 60), distance_km = 3 \<rparr>,
          \<lparr> row = example_resort ''B'' (Some 100) (Some 80), distance_km = 2 \<rparr>,
          \<lparr> row = example_resort ''A'' (Some 50) None, distance_km = 1 \<rparr>]"
  by (simp add: sort_results_def py_sort_def price_key_def example_items_def example_resort_def)

text \<open>
  The claim as stated fails: a resort priced 1200 is placed after the resort that has no
  pricing.
\<close>

theorem price_sort_counterexample:
  "sort_results ''price''
     [\<lparr> row = example_resort ''A'' (Some 50) (Some 1200), distance_km = 1 \<rparr>,
      \<lparr> row = example_resort ''B'' (Some 100) None, distance_km = 2 \<rparr>]
   = Inr [\<lparr> row = example_resort ''B'' (Some 100) None, distance_km = 2 \<rparr>,
          \<lparr> row = example_resort ''A'' (Some 50) (Some 1200), distance_km = 1 \<rparr>]"
  by (simp add: sort_results_def py_sort_def price_key_def example_resort_def)

subsection \<open>Facts about the fetcher\<close>

lemma example_scraper_simps:
  "clock (example_scraper t files answer) = t"
  "last_request_time (example_scraper t files answer) = 0"
  "cache_files (example_scraper t files answer) = files"
  "network (example_scraper t files answer) i url = \<lparr> body = answer i, duration = 0 \<rparr>"
  "request_log (example_scraper t files answer) = []"
  "sleep_log (example_scraper t files answer) = []"
  by (simp_all add: example_scraper_def)

lemma config_py_simps:
  "SCRAPER_RATE_LIMIT config_py = 2" "SCRAPER_MAX_RETRIES config_py = 3"
  "CACHE_DIR config_py = ''cache''" "CACHE_EXPIRY_HOURS config_py = 24"
  by (simp_all add: config_py_def)

lemma upt_3: "[0..<3] = [0, 1, 2]"
  by (simp add: upt_conv_Cons)

lemma py_sleep_simps:
  "clock (py_sleep d st) = clock st + d"
  "last_request_time (py_sleep d st) = last_request_time st"
  "cache_files (py_sleep d st) = cache_files st"
  "network (py_sleep d st) = network st"
  "request_log (py_sleep d st) = request_log st"
  "sleep_log (py_sleep d st) = sleep_log st @ [d]"
  by (simp_all add: py_sleep_def)

lemma session_get_simps:
  "fst (session_get url a st) = body (network st (length (request_log st)) url)"
  "clock (snd (session_get url a st)) = clock st + duration (network st (length (request_log st)) url)"
  "last_request_time (snd (session_get url a st)) = last_request_time st"
  "cache_files (snd (session_get url a st)) = cache_files st"
  "network (snd (session_get url a st)) = network st"
  "request_log (snd (session_get url a st)) = request_log st @ [(clock st, a)]"
  "sleep_log (snd (session_get url a st)) = sleep_log st"
  by (simp_all add: session_get_def Let_def)

lemma set_cached_simps:
  "clock (set_cached lib cfg key d st) = clock st"
  "last_request_time (set_cached lib cfg key d st) = last_request_time st"
  "network (set_cached lib cfg key d st) = network st"
  "request_log (set_cached lib cfg key d st) = request_log st"
  "sleep_log (set_cached lib cfg key d st) = sleep_log st"
  by (simp_all add: set_cached_def)

lemma rate_limit_simps:
  "cache_files (rate_limit cfg st) = cache_files st"
  "network (rate_limit cfg st) = network st"
  "request_log (rate_limit cfg st) = request_log st"
  "last_request_time (rate_limit cfg st) = clock (rate_limit cfg st)"
  by (simp_all add: rate_limit_def Let_def py_sleep_def)

lemma rate_limit_waits:
  "last_request_time st + SCRAPER_RATE_LIMIT cfg \<le> clock (rate_limit cfg st)"
  by (simp add: rate_limit_def Let_def py_sleep_def)

text \<open>One round of the loop, by the outcome of its request.\<close>

lemma retry_loop_success:
  assumes "body (network st (length (request_log st)) url) = Some text"
  shows "retry_loop lib cfg url uc (a # rest) st =
     (Some (JStr text),
      if uc then set_cached lib cfg url (JStr text) (snd (session_get url a st))
      else snd (session_get url a st))"
  using assms by (simp add: session_get_def Let_def)

lemma retry_loop_failure:
  assumes "body (network st (length (request_log st)) url) = None"
  shows "retry_loop lib cfg url uc (a # rest) st =
     (if a = SCRAPER_MAX_RETRIES cfg - 1 then (None, snd (session_get url a st))
      else retry_loop lib cfg url uc rest (py_sleep (2 ^ a) (snd (session_get url a st))))"
  using assms by (simp add: session_get_def Let_def)

lemma retry_loop_failure_last:
  assumes "body (network st (length (request_log st)) url) = None"
    and "a = SCRAPER_MAX_RETRIES cfg - 1"
  shows "retry_loop lib cfg url uc (a # rest) st = (None, snd (session_get url a st))"
  unfolding retry_loop_failure[OF assms(1)] using assms(2) by simp

lemma retry_loop_failure_more:
  assumes "body (network st (length (request_log st)) url) = None"
    and "a \<noteq> SCRAPER_MAX_RETRIES cfg - 1"
  shows "retry_loop lib cfg url uc (a # rest) st
         = retry_loop lib cfg url uc rest (py_sleep (2 ^ a) (snd (session_get url a st)))"
  unfolding retry_loop_failure[OF assms(1)] using assms(2) by simp

lemma retry_loop_cases:
  obtains (ok) doc where "body (network st (length (request_log st)) url) = Some doc"
  | (fail) "body (network st (length (request_log st)) url) = None"
  by (cases "body (network st (length (request_log st)) url)") auto

lemma retry_loop_network:
  "network (snd (retry_loop lib cfg url uc xs st)) = network st"
proof (induction xs arbitrary: st)
  case Nil
  show ?case by simp
next
  case (Cons a xs)
  show ?case
  proof (cases rule: retry_loop_cases[of st url])
    case (ok doc)
    then show ?thesis
      by (simp only: retry_loop_success[OF ok] snd_conv) (simp add: set_cached_simps session_get_simps)
  next
    case fail
    show ?thesis
      by (simp only: retry_loop_failure[OF fail])
         (simp add: Cons.IH py_sleep_simps session_get_simps)
  qed
qed

lemma retry_loop_last_request_time:
  "last_request_time (snd (retry_loop lib cfg url uc xs st)) = last_request_time st"
proof (induction xs arbitrary: st)
  case Nil
  show ?case by simp
next
  case (Cons a xs)
  show ?case
  proof (cases rule: retry_loop_cases[of st url])
    case (ok doc)
    then show ?thesis
      by (simp only: retry_loop_success[OF ok] snd_conv) (simp add: set_cached_simps session_get_simps)
  next
    case fail
    show ?thesis
      by (simp only: retry_loop_failure[OF fail])
         (simp add: Cons.IH py_sleep_simps session_get_simps)
  qed
qed

text \<open>The requests of the loop: at most one per round, the first at the current time.\<close>

lemma retry_loop_log:
  "\<exists>es. request_log (snd (retry_loop lib cfg url uc xs st)) = request_log st @ es
        \<and> length es \<le> length xs
        \<and> set (map snd es) \<subseteq> set xs
        \<and> (xs \<noteq> [] \<longrightarrow> es \<noteq> [] \<and> hd es = (clock st, hd xs) \<and> set (map snd (tl es)) \<subseteq> set (tl xs))"
proof (induction xs arbitrary: st)
  case Nil
  show ?case by simp
next
  case (Cons a xs)
  let ?st1 = "snd (session_get url a st)"
  show ?case
  proof (cases rule: retry_loop_cases[of st url])
    case (ok doc)
    have "request_log (snd (retry_loop lib cfg url uc (a # xs) st)) = request_log st @ [(clock st, a)]"
      by (simp only: retry_loop_success[OF ok] snd_conv) (simp add: set_cached_simps session_get_simps)
    then show ?thesis by (intro exI[of _ "[(clock st, a)]"]) simp
  next
    case fail
    show ?thesis
    proof (cases "a = SCRAPER_MAX_RETRIES cfg - 1")
      case True
      have "request_log (snd (retry_loop lib cfg url uc (a # xs) st)) = request_log st @ [(clock st, a)]"
        by (simp only: retry_loop_failure_last[OF fail True]) (simp add: session_get_simps)
      then show ?thesis by (intro exI[of _ "[(clock st, a)]"]) simp
    next
      case False
      from Cons.IH[of "py_sleep (2 ^ a) ?st1"] obtain es where
        es: "request_log (snd (retry_loop lib cfg url uc xs (py_sleep (2 ^ a) ?st1)))
               = request_log (py_sleep (2 ^ a) ?st1) @ es"
          "length es \<le> length xs" "set (map snd es) \<subseteq> set xs"
        by blast
      have "request_log (snd (retry_loop lib cfg url uc (a # xs) st))
            = request_log st @ (clock st, a) # es"
        by (simp only: retry_loop_failure_more[OF fail False]) (simp add: es(1) py_sleep_simps session_get_simps)
      with es(2,3) show ?thesis
        by (intro exI[of _ "(clock st, a) # es"]) auto
    qed
  qed
qed

text \<open>When every request fails, the loop makes every attempt and sleeps between them.\<close>

lemma retry_loop_all_fail:
  assumes "a + m = SCRAPER_MAX_RETRIES cfg"
    and "\<forall>i<m. body (network st (length (request_log st) + i) url) = None"
  shows "fst (retry_loop lib cfg url uc [a..<a + m] st) = None
       \<and> length (request_log (snd (retry_loop lib cfg url uc [a..<a + m] st)))
           = length (request_log st) + m
       \<and> sleep_log (snd (retry_loop lib cfg url uc [a..<a + m] st))
           = sleep_log st @ map (\<lambda>j. 2 ^ j) [a..<a + m - 1]"
  using assms
proof (induction m arbitrary: a st)
  case 0
  show ?case by simp
next
  case (Suc m)
  let ?st1 = "snd (session_get url a st)"
  let ?st2 = "py_sleep (2 ^ a) ?st1"
  have upt: "[a..<a + Suc m] = a # [Suc a..<Suc a + m]" by (simp add: upt_conv_Cons)
  from Suc.prems(2) have fail: "body (network st (length (request_log st)) url) = None"
    by (metis add.right_neutral zero_less_Suc)
  show ?case
  proof (cases "m = 0")
    case True
    with Suc.prems(1) have last: "a = SCRAPER_MAX_RETRIES cfg - 1" by simp
    show ?thesis
      unfolding upt by (simp only: retry_loop_failure_last[OF fail last]) (simp add: True session_get_simps)
  next
    case False
    with Suc.prems(1) have notlast: "a \<noteq> SCRAPER_MAX_RETRIES cfg - 1" by simp
    have len: "length (request_log ?st2) = Suc (length (request_log st))"
      by (simp add: py_sleep_simps session_get_simps)
    have nxt: "body (network st (length (request_log st) + Suc i) url) = None" if "i < m" for i
      using Suc.prems(2)[rule_format, of "Suc i"] that by simp
    have "\<forall>i<m. body (network ?st2 (length (request_log ?st2) + i) url) = None"
      using nxt by (simp add: len py_sleep_simps session_get_simps)
    moreover have "Suc a + m = SCRAPER_MAX_RETRIES cfg" using Suc.prems(1) by simp
    ultimately have ih:
      "fst (retry_loop lib cfg url uc [Suc a..<Suc a + m] ?st2) = None
       \<and> length (request_log (snd (retry_loop lib cfg url uc [Suc a..<Suc a + m] ?st2)))
           = length (request_log ?st2) + m
       \<and> sleep_log (snd (retry_loop lib cfg url uc [Suc a..<Suc a + m] ?st2))
           = sleep_log ?st2 @ map (\<lambda>j. 2 ^ j) [Suc a..<Suc a + m - 1]"
      by (rule Suc.IH[rotated])
    have step: "retry_loop lib cfg url uc [a..<a + Suc m] st
                = retry_loop lib cfg url uc [Suc a..<Suc a + m] ?st2"
      unfolding upt by (rule retry_loop_failure_more[OF fail notlast])
    have e1: "[a..<a + Suc m - 1] = a # [Suc a..<Suc a + m - 1]"
      using False by (simp add: upt_conv_Cons)
    have s2: "sleep_log ?st2 = sleep_log st @ [2 ^ a]"
      by (simp add: py_sleep_simps session_get_simps)
    show ?thesis
      unfolding step e1 using ih by (simp only: len s2) simp
  qed
qed

text \<open>When the first \<open>m\<close> requests fail and the next succeeds, its text is returned.\<close>

lemma retry_loop_then_success:
  assumes "a + m < SCRAPER_MAX_RETRIES cfg"
    and "\<forall>i<m. body (network st (length (request_log st) + i) url) = None"
    and "body (network st (length (request_log st) + m) url) = Some text"
  shows "fst (retry_loop lib cfg url uc [a..<SCRAPER_MAX_RETRIES cfg] st) = Some (JStr text)"
  using assms
proof (induction m arbitrary: a st)
  case 0
  then have upt: "[a..<SCRAPER_MAX_RETRIES cfg] = a # [Suc a..<SCRAPER_MAX_RETRIES cfg]"
    by (simp add: upt_conv_Cons)
  from 0 have ok: "body (network st (length (request_log st)) url) = Some text" by simp
  show ?case unfolding upt by (simp only: retry_loop_success[OF ok] fst_conv)
next
  case (Suc m)
  let ?st2 = "py_sleep (2 ^ a) (snd (session_get url a st))"
  from Suc.prems(1) have upt: "[a..<SCRAPER_MAX_RETRIES cfg] = a # [Suc a..<SCRAPER_MAX_RETRIES cfg]"
    by (simp add: upt_conv_Cons)
  from Suc.prems(1) have notlast: "a \<noteq> SCRAPER_MAX_RETRIES cfg - 1" by simp
  from Suc.prems(2) have fail: "body (network st (length (request_log st)) url) = None"
    by (metis add.right_neutral zero_less_Suc)
  have len: "length (request_log ?st2) = Suc (length (request_log st))"
    by (simp add: py_sleep_simps session_get_simps)
  have nxt: "body (network st (length (request_log st) + Suc i) url) = None" if "i < m" for i
    using Suc.prems(2)[rule_format, of "Suc i"] that by simp
  have 1: "\<forall>i<m. body (network ?st2 (length (request_log ?st2) + i) url) = None"
    using nxt by (simp add: len py_sleep_simps session_get_simps)
  have 2: "body (network ?st2 (length (request_log ?st2) + m) url) = Some text"
    using Suc.prems(3) by (simp add: len py_sleep_simps session_get_simps)
  have 3: "Suc a + m < SCRAPER_MAX_RETRIES cfg" using Suc.prems(1) by simp
  have "retry_loop lib cfg url uc [a..<SCRAPER_MAX_RETRIES cfg] st
        = retry_loop lib cfg url uc [Suc a..<SCRAPER_MAX_RETRIES cfg] ?st2"
    unfolding upt by (rule retry_loop_failure_more[OF fail notlast])
  then show ?case using Suc.IH[OF 3 1 2] by simp
qed

lemma fetch_url_no_cache: "fetch_url lib cfg url False st = fetch_network lib cfg url False st"
  by (simp add: fetch_url_def)

lemma fetch_network_fst:
  "fst (fetch_network lib cfg url uc st)
     = Inr (fst (retry_loop lib cfg url uc [0..<SCRAPER_MAX_RETRIES cfg] (rate_limit cfg st)))"
  by (simp add: fetch_network_def split: prod.splits)

lemma fetch_network_snd:
  "snd (fetch_network lib cfg url uc st)
     = snd (retry_loop lib cfg url uc [0..<SCRAPER_MAX_RETRIES cfg] (rate_limit cfg st))"
  by (simp add: fetch_network_def split: prod.splits)

subsection \<open>C2: retries of fetch\_url\<close>

text \<open>
  Claim C2. With caching disabled \<^verbatim>\<open>fetch_url\<close> makes at most \<^verbatim>\<open>SCRAPER_MAX_RETRIES\<close>
  requests. When all but the last allowed request fail and the last one succeeds, its text
  is returned. When that many requests fail, the result is \<^verbatim>\<open>None\<close>, exactly that many
  requests were made, and after each failed request but the last the loop slept
  \<open>2 ^ attempt\<close> seconds, \<open>attempt\<close> counting from 0 (the sleeps follow whatever the rate
  limiter slept before the first request).
\<close>

theorem fetch_url_retries:
  "length (request_log (snd (fetch_url lib cfg url False st)))
      \<le> length (request_log st) + SCRAPER_MAX_RETRIES cfg
   \<and> (0 < SCRAPER_MAX_RETRIES cfg
        \<and> (\<forall>i < SCRAPER_MAX_RETRIES cfg - 1.
              body (network st (length (request_log st) + i) url) = None)
        \<and> body (network st (length (request_log st) + (SCRAPER_MAX_RETRIES cfg - 1)) url)
            = Some text
      \<longrightarrow> fst (fetch_url lib cfg url False st) = Inr (Some (JStr text)))
   \<and> ((\<forall>i < SCRAPER_MAX_RETRIES cfg.
              body (network st (length (request_log st) + i) url) = None)
      \<longrightarrow> fst (fetch_url lib cfg url False st) = Inr None
        \<and> length (request_log (snd (fetch_url lib cfg url False st)))
            = length (request_log st) + SCRAPER_MAX_RETRIES cfg
        \<and> sleep_log (snd (fetch_url lib cfg url False st))
            = sleep_log (rate_limit cfg st)
              @ map (\<lambda>attempt. 2 ^ attempt) [0..<SCRAPER_MAX_RETRIES cfg - 1])"
proof (intro conjI impI)
  let ?n = "SCRAPER_MAX_RETRIES cfg"
  let ?st1 = "rate_limit cfg st"
  from retry_loop_log[of lib cfg url False "[0..<?n]" ?st1]
  show "length (request_log (snd (fetch_url lib cfg url False st))) \<le> length (request_log st) + ?n"
    by (auto simp add: fetch_url_no_cache fetch_network_snd rate_limit_simps)
next
  let ?n = "SCRAPER_MAX_RETRIES cfg"
  let ?st1 = "rate_limit cfg st"
  assume a: "0 < ?n \<and> (\<forall>i < ?n - 1. body (network st (length (request_log st) + i) url) = None)
        \<and> body (network st (length (request_log st) + (?n - 1)) url) = Some text"
  have "fst (retry_loop lib cfg url False [0..<?n] ?st1) = Some (JStr text)"
  proof (rule retry_loop_then_success[where m = "?n - 1" and a = 0])
    show "0 + (?n - 1) < ?n" using a by simp
    show "\<forall>i<?n - 1. body (network ?st1 (length (request_log ?st1) + i) url) = None"
      using a by (simp only: rate_limit_simps) simp
    show "body (network ?st1 (length (request_log ?st1) + (?n - 1)) url) = Some text"
      using a by (simp only: rate_limit_simps)
  qed
  then show "fst (fetch_url lib cfg url False st) = Inr (Some (JStr text))"
    by (simp add: fetch_url_no_cache fetch_network_fst)
next
  let ?n = "SCRAPER_MAX_RETRIES cfg"
  let ?st1 = "rate_limit cfg st"
  assume a: "\<forall>i < ?n. body (network st (length (request_log st) + i) url) = None"
  have "0 + ?n = ?n" by simp
  from retry_loop_all_fail[OF this, of ?st1 url lib False] a
  have r: "fst (retry_loop lib cfg url False [0..<?n] ?st1) = None"
    "length (request_log (snd (retry_loop lib cfg url False [0..<?n] ?st1)))
           = length (request_log st) + ?n"
    "sleep_log (snd (retry_loop lib cfg url False [0..<?n] ?st1))
           = sleep_log ?st1 @ map (\<lambda>j. 2 ^ j) [0..<?n - 1]"
    by (simp_all add: rate_limit_simps)
  show "fst (fetch_url lib cfg url False st) = Inr None"
    by (simp add: fetch_url_no_cache fetch_network_fst r(1))
  show "length (request_log (snd (fetch_url lib cfg url False st))) = length (request_log st) + ?n"
    by (simp add: fetch_url_no_cache fetch_network_snd r(2))
  show "sleep_log (snd (fetch_url lib cfg url False st))
            = sleep_log ?st1 @ map (\<lambda>attempt. 2 ^ attempt) [0..<?n - 1]"
    by (simp add: fetch_url_no_cache fetch_network_snd r(3))
qed

theorem fetch_url_retries_witness:
  "fst (fetch_url example_lib config_py ''u'' False
          (example_scraper 100 Map.empty (\<lambda>i. if i = 2 then Some ''<html>'' else None)))
     = Inr (Some (JStr ''<html>''))
   \<and> fst (fetch_url example_lib config_py ''u'' False
          (example_scraper 100 Map.empty (\<lambda>i. None))) = Inr None
   \<and> length (request_log (snd (fetch_url example_lib config_py ''u'' False
          (example_scraper 100 Map.empty (\<lambda>i. None))))) = 3
   \<and> sleep_log (snd (fetch_url example_lib config_py ''u'' False
          (example_scraper 100 Map.empty (\<lambda>i. None)))) = [1, 2]"
proof -
  let ?ok = "example_scraper 100 Map.empty (\<lambda>i. if i = 2 then Some ''<html>'' else None)"
  let ?bad = "example_scraper 100 Map.empty (\<lambda>i. None)"
  have h1: "0 < SCRAPER_MAX_RETRIES config_py
        \<and> (\<forall>i < SCRAPER_MAX_RETRIES config_py - 1.
              body (network ?ok (length (request_log ?ok) + i) ''u'') = None)
        \<and> body (network ?ok (length (request_log ?ok) + (SCRAPER_MAX_RETRIES config_py - 1)) ''u'')
            = Some ''<html>''"
    by (simp add: example_scraper_simps config_py_simps)
  have h2: "\<forall>i < SCRAPER_MAX_RETRIES config_py.
              body (network ?bad (length (request_log ?bad) + i) ''u'') = None"
    by (simp add: example_scraper_simps)
  have s: "sleep_log (rate_limit config_py ?bad) = []"
    by (simp add: rate_limit_def Let_def example_scraper_simps config_py_simps)
  have m: "map (\<lambda>attempt. 2 ^ attempt) [0..<SCRAPER_MAX_RETRIES config_py - 1] = [1, 2::real]"
    by (simp add: config_py_simps upt_conv_Cons)
  from fetch_url_retries [of example_lib config_py "''u''" ?ok "''<html>''"] h1
  have 1: "fst (fetch_url example_lib config_py ''u'' False ?ok) = Inr (Some (JStr ''<html>''))"
    by blast
  from fetch_url_retries [of example_lib config_py "''u''" ?bad "''<html>''"] h2
  have 2: "fst (fetch_url example_lib config_py ''u'' False ?bad) = Inr None
        \<and> length (request_log (snd (fetch_url example_lib config_py ''u'' False ?bad)))
            = length (request_log ?bad) + SCRAPER_MAX_RETRIES config_py
        \<and> sleep_log (snd (fetch_url example_lib config_py ''u'' False ?bad))
            = sleep_log (rate_limit config_py ?bad)
              @ map (\<lambda>attempt. 2 ^ attempt) [0..<SCRAPER_MAX_RETRIES config_py - 1]"
    by blast
  from 1 2 show ?thesis
    unfolding s m by (simp add: example_scraper_simps config_py_simps)
qed

subsection \<open>C6: the rate limiter and the retries\<close>

lemma first_attempts_append:
  "first_attempts (xs @ ys) = first_attempts xs @ first_attempts ys"
  by (simp add: first_attempts_def)

lemma retry_loop_first_attempts:
  "first_attempts (request_log (snd (retry_loop lib cfg url uc [0..<n] st)))
     = first_attempts (request_log st) @ (if n = 0 then [] else [clock st])"
proof (cases "n = 0")
  case True
  then show ?thesis by simp
next
  case False
  then have upt: "[0..<n] = 0 # [1..<n]" by (simp add: upt_conv_Cons)
  from retry_loop_log[of lib cfg url uc "[0..<n]" st] obtain es where
    es: "request_log (snd (retry_loop lib cfg url uc [0..<n] st)) = request_log st @ es"
      "es \<noteq> []" "hd es = (clock st, 0)" "set (map snd (tl es)) \<subseteq> set [1..<n]"
    using False by (auto simp add: upt)
  from es(2,3) have es_eq: "es = (clock st, 0) # tl es" by (cases es) auto
  have "filter (\<lambda>e. snd e = 0) (tl es) = []"
    using es(4) by (auto simp add: filter_empty_conv)
  then have "first_attempts es = [clock st]"
    by (subst es_eq) (simp add: first_attempts_def)
  with False show ?thesis by (simp add: es(1) first_attempts_append)
qed

lemma fetch_url_first_attempts:
  "first_attempts (request_log (snd (fetch_url lib cfg url False st)))
     = first_attempts (request_log st)
       @ (if SCRAPER_MAX_RETRIES cfg = 0 then [] else [clock (rate_limit cfg st)])"
  by (simp add: fetch_url_no_cache fetch_network_snd retry_loop_first_attempts rate_limit_simps)

lemma fetch_url_last_request_time:
  "last_request_time (snd (fetch_url lib cfg url False st)) = clock (rate_limit cfg st)"
  by (simp add: fetch_url_no_cache fetch_network_snd retry_loop_last_request_time rate_limit_simps)

lemma fetch_url_network:
  "network (snd (fetch_url lib cfg url False st)) = network st"
  by (simp add: fetch_url_no_cache fetch_network_snd retry_loop_network rate_limit_simps)

lemma first_attempts_invariant:
  assumes "0 \<le> SCRAPER_RATE_LIMIT cfg"
    and "successively (\<lambda>s t. s + SCRAPER_RATE_LIMIT cfg \<le> t) (first_attempts (request_log st))"
    and "\<forall>t \<in> set (first_attempts (request_log st)). t \<le> last_request_time st"
  shows "successively (\<lambda>s t. s + SCRAPER_RATE_LIMIT cfg \<le> t)
           (first_attempts (request_log (fetch_all lib cfg urls st)))"
  using assms(2,3)
proof (induction urls arbitrary: st)
  case Nil
  then show ?case by simp
next
  case (Cons url urls)
  let ?st' = "snd (fetch_url lib cfg url False st)"
  let ?t = "clock (rate_limit cfg st)"
  have t: "last_request_time st + SCRAPER_RATE_LIMIT cfg \<le> ?t" by (rule rate_limit_waits)
  have old: "s + SCRAPER_RATE_LIMIT cfg \<le> ?t \<and> s \<le> ?t"
    if "s \<in> set (first_attempts (request_log st))" for s
    using Cons.prems(2) that t assms(1) by fastforce
  have lst: "last (first_attempts (request_log st)) + SCRAPER_RATE_LIMIT cfg \<le> ?t"
    if "first_attempts (request_log st) \<noteq> []"
    using old last_in_set[OF that] by blast
  have 1: "successively (\<lambda>s t. s + SCRAPER_RATE_LIMIT cfg \<le> t) (first_attempts (request_log ?st'))"
    using Cons.prems(1) lst
    by (auto simp add: fetch_url_first_attempts successively_append_iff)
  have 2: "\<forall>t \<in> set (first_attempts (request_log ?st')). t \<le> last_request_time ?st'"
    using old by (auto simp add: fetch_url_first_attempts fetch_url_last_request_time)
  from Cons.IH[OF 1 2] show ?case by simp
qed

text \<open>Within the loop a retry follows the request before it by the back-off at least.\<close>

lemma retry_loop_backoff:
  assumes "\<forall>i u. 0 \<le> duration (network st i u)"
  shows "\<exists>es. request_log (snd (retry_loop lib cfg url uc [a..<a + m] st)) = request_log st @ es
          \<and> successively backoff_kept es
          \<and> (es \<noteq> [] \<longrightarrow> hd es = (clock st, a))"
  using assms
proof (induction m arbitrary: a st)
  case 0
  show ?case by simp
next
  case (Suc m)
  let ?st1 = "snd (session_get url a st)"
  let ?st2 = "py_sleep (2 ^ a) ?st1"
  have upt: "[a..<a + Suc m] = a # [Suc a..<Suc a + m]" by (simp add: upt_conv_Cons)
  have single: "successively backoff_kept [(clock st, a)] \<and> hd [(clock st, a)] = (clock st, a)"
    by simp
  show ?case
  proof (cases rule: retry_loop_cases[of st url])
    case (ok doc)
    have "request_log (snd (retry_loop lib cfg url uc [a..<a + Suc m] st)) = request_log st @ [(clock st, a)]"
      unfolding upt
      by (simp only: retry_loop_success[OF ok] snd_conv) (simp add: set_cached_simps session_get_simps)
    with single show ?thesis by blast
  next
    case fail
    show ?thesis
    proof (cases "a = SCRAPER_MAX_RETRIES cfg - 1")
      case True
      have "request_log (snd (retry_loop lib cfg url uc [a..<a + Suc m] st)) = request_log st @ [(clock st, a)]"
        unfolding upt
        by (simp only: retry_loop_failure_last[OF fail True]) (simp add: session_get_simps)
      with single show ?thesis by blast
    next
      case False
      have "\<forall>i u. 0 \<le> duration (network ?st2 i u)"
        using Suc.prems by (simp add: py_sleep_simps session_get_simps)
      from Suc.IH[OF this, of "Suc a"] obtain es where
        es: "request_log (snd (retry_loop lib cfg url uc [Suc a..<Suc a + m] ?st2))
               = request_log ?st2 @ es"
          "successively backoff_kept es" "es \<noteq> [] \<longrightarrow> hd es = (clock ?st2, Suc a)"
        by blast
      have clk: "clock st + 2 ^ a \<le> clock ?st2"
        using Suc.prems by (simp add: py_sleep_simps session_get_simps)
      have log: "request_log (snd (retry_loop lib cfg url uc [a..<a + Suc m] st))
            = request_log st @ (clock st, a) # es"
        unfolding upt
        by (simp only: retry_loop_failure_more[OF fail False] es(1))
           (simp add: py_sleep_simps session_get_simps)
      have "successively backoff_kept ((clock st, a) # es)"
        using es(2,3) clk by (cases es) (auto simp add: backoff_kept_def)
      with log show ?thesis by (intro exI[of _ "(clock st, a) # es"]) simp
    qed
  qed
qed

lemma backoff_invariant:
  assumes "\<forall>i u. 0 \<le> duration (network st i u)"
    and "successively backoff_kept (request_log st)"
  shows "successively backoff_kept (request_log (fetch_all lib cfg urls st))"
  using assms
proof (induction urls arbitrary: st)
  case Nil
  then show ?case by simp
next
  case (Cons url urls)
  let ?st' = "snd (fetch_url lib cfg url False st)"
  let ?st1 = "rate_limit cfg st"
  have "\<forall>i u. 0 \<le> duration (network ?st1 i u)"
    using Cons.prems(1) by (simp add: rate_limit_simps)
  from retry_loop_backoff[OF this, of lib cfg url False 0 "SCRAPER_MAX_RETRIES cfg"]
  obtain es where
    es: "request_log ?st' = request_log st @ es" "successively backoff_kept es"
      "es \<noteq> [] \<longrightarrow> hd es = (clock ?st1, 0)"
    by (auto simp add: fetch_url_no_cache fetch_network_snd rate_limit_simps)
  have 1: "successively backoff_kept (request_log ?st')"
    unfolding es(1) successively_append_iff
    using Cons.prems(2) es(2,3) by (auto simp add: backoff_kept_def)
  have 2: "\<forall>i u. 0 \<le> duration (network ?st' i u)"
    using Cons.prems(1) by (simp add: fetch_url_network)
  from Cons.IH[OF 2 1] show ?case by simp
qed

text \<open>
  What the limiter does keep. On a scraper that has made no request yet, with a rate limit
  that is not negative and requests that take no negative time, after any run of
  \<^verbatim>\<open>fetch_url(url, use_cache=False)\<close> calls: the first requests of consecutive calls are at
  least \<^verbatim>\<open>SCRAPER_RATE_LIMIT\<close> apart, and inside a call every retry follows the request
  before it by at least the back-off \<open>2 ^ attempt\<close> of that request.
\<close>

lemma first_requests_spaced:
  assumes "request_log st = []"
    and "0 \<le> SCRAPER_RATE_LIMIT cfg"
    and "\<forall>i u. 0 \<le> duration (network st i u)"
  shows "successively (\<lambda>s t. s + SCRAPER_RATE_LIMIT cfg \<le> t)
           (first_attempts (request_log (fetch_all lib cfg urls st)))
       \<and> successively backoff_kept (request_log (fetch_all lib cfg urls st))"
proof
  show "successively (\<lambda>s t. s + SCRAPER_RATE_LIMIT cfg \<le> t)
           (first_attempts (request_log (fetch_all lib cfg urls st)))"
    by (rule first_attempts_invariant[OF assms(2)]) (simp_all add: assms(1) first_attempts_def)
  show "successively backoff_kept (request_log (fetch_all lib cfg urls st))"
    by (rule backoff_invariant[OF assms(3)]) (simp add: assms(1))
qed

text \<open>
  For example, with the settings of config.py and requests that succeed at once, the
  second of two calls sleeps two seconds and sends its request at 102.
\<close>

lemma first_requests_spaced_example:
  "request_log (fetch_all example_lib config_py [''u'', ''u'']
       (example_scraper 100 Map.empty (\<lambda>i. Some ''page'')))
     = [(100, 0), (102, 0)]
   \<and> sleep_log (fetch_all example_lib config_py [''u'', ''u'']
       (example_scraper 100 Map.empty (\<lambda>i. Some ''page'')))
     = [2]"
  by (simp add: fetch_url_def fetch_network_def upt_3 config_py_simps rate_limit_def Let_def
      session_get_def py_sleep_def example_scraper_def)

text \<open>
  Claim C6: for every sequence of \<^verbatim>\<open>fetch_url\<close> calls on one scraper instance with the
  cache disabled, any two consecutive network requests, the retries inside one call
  included, are at least \<^verbatim>\<open>SCRAPER_RATE_LIMIT\<close> apart. config.py calls the setting the
  \<^verbatim>\<open>seconds between requests\<close> and \<^verbatim>\<open>_rate_limit\<close> is documented to enforce rate
  limiting between requests, but \<^verbatim>\<open>fetch_url\<close> calls it once, before the retry loop, and
  the retries do not refresh \<^verbatim>\<open>last_request_time\<close>. With the settings of config.py
  (rate limit 2, three attempts) and requests that fail at once, two calls send their
  requests at the times 100, 101, 103 and 103, 104, 106: the first retry comes one second
  after the first request, and the second call's first request comes at the very time of
  the first call's last one.
\<close>

theorem rate_limit_not_between_requests:
  "request_log (fetch_all example_lib config_py [''u'', ''u'']
       (example_scraper 100 Map.empty (\<lambda>i. None)))
     = [(100, 0), (101, 1), (103, 2), (103, 0), (104, 1), (106, 2)]
   \<and> \<not> successively (\<lambda>e1 e2. fst e1 + SCRAPER_RATE_LIMIT config_py \<le> fst e2)
        (request_log (fetch_all example_lib config_py [''u'', ''u'']
           (example_scraper 100 Map.empty (\<lambda>i. None))))"
proof -
  have run: "request_log (fetch_all example_lib config_py [''u'', ''u'']
       (example_scraper 100 Map.empty (\<lambda>i. None)))
     = [(100, 0), (101, 1), (103, 2), (103, 0), (104, 1), (106, 2)]"
    by (simp add: fetch_url_def fetch_network_def upt_3 config_py_simps rate_limit_def Let_def
        session_get_def py_sleep_def example_scraper_def)
  show ?thesis
    unfolding run by (simp add: config_py_simps)
qed

subsection \<open>C5: the cache\<close>

lemma get_cached_missing:
  "cache_files st (get_cache_path lib cfg key) = None \<Longrightarrow> get_cached lib cfg key st = Inr None"
  by (simp add: get_cached_def)

lemma get_cached_not_json:
  "cache_files st (get_cache_path lib cfg key) = Some None \<Longrightarrow> get_cached lib cfg key st = Inr None"
  by (simp add: get_cached_def read_entry_def)

lemma read_entry_written:
  assumes "fromisoformat lib ts = Some (Naive t)"
  shows "read_entry lib cfg now (Some (JObj [(''timestamp'', JStr ts), (''data'', d)]))
         = (if now - t < 3600 * CACHE_EXPIRY_HOURS cfg then Inr (Some d) else Inr None)"
  using assms by (simp add: read_entry_def)

lemma cache_round_trip:
  assumes "fromisoformat lib (isoformat lib (clock st)) = Some (Naive (clock st))"
    and "0 < CACHE_EXPIRY_HOURS cfg"
  shows "get_cached lib cfg key (set_cached lib cfg key payload st) = Inr (Some payload)"
  using assms(2)
  by (simp add: get_cached_def set_cached_def read_entry_written[OF assms(1)])

lemma cache_expired:
  assumes "fromisoformat lib (isoformat lib (clock st)) = Some (Naive (clock st))"
    and "3600 * CACHE_EXPIRY_HOURS cfg \<le> waited"
  shows "get_cached lib cfg key
           ((set_cached lib cfg key payload st)\<lparr> clock := clock st + waited \<rparr>) = Inr None"
  using assms(2)
  by (simp add: get_cached_def set_cached_def read_entry_written[OF assms(1)])

text \<open>
  Claim C5. The round trip and the expiry hold (\<open>cache_round_trip\<close>, \<open>cache_expired\<close>),
  and a missing file or a file that is not JSON is a miss. But a malformed entry is not
  always a miss: \<^verbatim>\<open>_get_cached\<close> catches \<^verbatim>\<open>JSONDecodeError\<close>, \<^verbatim>\<open>KeyError\<close> and
  \<^verbatim>\<open>ValueError\<close> only, so a cache file that holds the JSON array \<^verbatim>\<open>[]\<close>, or an entry
  whose timestamp carries a UTC offset, makes it raise \<^verbatim>\<open>TypeError\<close>.
\<close>

theorem get_cached_raises:
  "get_cached example_lib config_py ''u''
     (example_scraper 0 [get_cache_path example_lib config_py ''u'' \<mapsto> Some (JArr [])]
        (\<lambda>i. None))
   = Inl TypeError
   \<and> get_cached example_lib config_py ''u''
     (example_scraper 0 [get_cache_path example_lib config_py ''u'' \<mapsto>
          Some (JObj [(''timestamp'', JStr ''1970-01-01T00:00:00+00:00''), (''data'', JStr ''x'')])]
        (\<lambda>i. None))
   = Inl TypeError"
  by (simp add: get_cached_def read_entry_def example_scraper_simps example_lib_def)

subsection \<open>C10: an empty cached payload\<close>

lemma retry_loop_requests:
  "xs \<noteq> [] \<Longrightarrow>
   length (request_log st) < length (request_log (snd (retry_loop lib cfg url uc xs st)))"
  using retry_loop_log[of lib cfg url uc xs st] by auto

text \<open>
  Claim C10. When the cache holds an unexpired entry for the URL whose payload is the empty
  string, \<^verbatim>\<open>_get_cached\<close> returns that empty string, \<^verbatim>\<open>fetch_url(url, use_cache=True)\<close>
  does not return it but goes on as on a miss, and (at least one attempt being allowed) a
  new network request is issued, right after the rate limiter.
\<close>

theorem empty_payload_is_a_miss:
  assumes "cache_files st (get_cache_path lib cfg url) = Some (Some entry)"
    and "subscript entry ''timestamp'' = Inr (JStr ts)"
    and "fromisoformat lib ts = Some (Naive cached_time)"
    and "clock st - cached_time < 3600 * CACHE_EXPIRY_HOURS cfg"
    and "subscript entry ''data'' = Inr (JStr [])"
    and "0 < SCRAPER_MAX_RETRIES cfg"
  shows "get_cached lib cfg url st = Inr (Some (JStr []))
       \<and> fetch_url lib cfg url True st = fetch_network lib cfg url True st
       \<and> length (request_log st) < length (request_log (snd (fetch_url lib cfg url True st)))
       \<and> hd (drop (length (request_log st)) (request_log (snd (fetch_url lib cfg url True st))))
           = (clock (rate_limit cfg st), 0)"
proof -
  have g: "get_cached lib cfg url st = Inr (Some (JStr []))"
    using assms(1-5) by (simp add: get_cached_def read_entry_def)
  then have f: "fetch_url lib cfg url True st = fetch_network lib cfg url True st"
    by (simp add: fetch_url_def)
  from assms(6) have ne: "[0..<SCRAPER_MAX_RETRIES cfg] \<noteq> []" by simp
  from retry_loop_log[of lib cfg url True "[0..<SCRAPER_MAX_RETRIES cfg]" "rate_limit cfg st"] ne
  obtain es where es:
    "request_log (snd (fetch_network lib cfg url True st)) = request_log st @ es"
    "es \<noteq> []" "hd es = (clock (rate_limit cfg st), hd [0..<SCRAPER_MAX_RETRIES cfg])"
    by (auto simp add: fetch_network_snd rate_limit_simps)
  have "hd [0..<SCRAPER_MAX_RETRIES cfg] = 0"
    using assms(6) by (simp add: upt_conv_Cons)
  with es g f show ?thesis by simp
qed

theorem empty_payload_is_a_miss_witness:
  "get_cached example_lib config_py ''u''
      (example_scraper 100 [get_cache_path example_lib config_py ''u'' \<mapsto> Some example_empty_entry]
        (\<lambda>i. Some ''<html>'')) = Inr (Some (JStr []))
   \<and> fetch_url example_lib config_py ''u'' True
      (example_scraper 100 [get_cache_path example_lib config_py ''u'' \<mapsto> Some example_empty_entry]
        (\<lambda>i. Some ''<html>''))
     = fetch_network example_lib config_py ''u'' True
      (example_scraper 100 [get_cache_path example_lib config_py ''u'' \<mapsto> Some example_empty_entry]
        (\<lambda>i. Some ''<html>''))
   \<and> length (request_log
      (example_scraper 100 [get_cache_path example_lib config_py ''u'' \<mapsto> Some example_empty_entry]
        (\<lambda>i. Some ''<html>'')))
     < length (request_log (snd (fetch_url example_lib config_py ''u'' True
      (example_scraper 100 [get_cache_path example_lib config_py ''u'' \<mapsto> Some example_empty_entry]
        (\<lambda>i. Some ''<html>'')))))
   \<and> hd (drop (length (request_log
      (example_scraper 100 [get_cache_path example_lib config_py ''u'' \<mapsto> Some example_empty_entry]
        (\<lambda>i. Some ''<html>''))))
        (request_log (snd (fetch_url example_lib config_py ''u'' True
      (example_scraper 100 [get_cache_path example_lib config_py ''u'' \<mapsto> Some example_empty_entry]
        (\<lambda>i. Some ''<html>''))))))
     = (clock (rate_limit config_py
      (example_scraper 100 [get_cache_path example_lib config_py ''u'' \<mapsto> Some example_empty_entry]
        (\<lambda>i. Some ''<html>''))), 0)"
proof -
  let ?st = "example_scraper 100 [get_cache_path example_lib config_py ''u'' \<mapsto> Some example_empty_entry]
        (\<lambda>i. Some ''<html>'')"
  have h1: "cache_files ?st (get_cache_path example_lib config_py ''u'') = Some (Some example_empty_entry)"
    by (simp add: example_scraper_simps)
  have h2: "subscript example_empty_entry ''timestamp'' = Inr (JStr ''1970-01-01T00:00:00'')"
    by (simp add: example_empty_entry_def)
  have h3: "fromisoformat example_lib ''1970-01-01T00:00:00'' = Some (Naive 0)"
    by (simp add: example_lib_def)
  have h4: "clock ?st - 0 < 3600 * CACHE_EXPIRY_HOURS config_py"
    by (simp add: example_scraper_simps config_py_simps)
  have h5: "subscript example_empty_entry ''data'' = Inr (JStr [])"
    by (simp add: example_empty_entry_def)
  have h6: "0 < SCRAPER_MAX_RETRIES config_py"
    by (simp add: config_py_simps)
  show ?thesis by (rule empty_payload_is_a_miss [OF h1 h2 h3 h4 h5 h6])
qed

subsection \<open>Facts about the extractor\<close>

lemma fetch_url_first_success:
  assumes "cache_files st (get_cache_path lib cfg url) = None"
    and "0 < SCRAPER_MAX_RETRIES cfg"
    and "body (network st (length (request_log st)) url) = Some doc"
  shows "fst (fetch_url lib cfg url True st) = Inr (Some (JStr doc))"
proof -
  from assms(2) have upt: "[0..<SCRAPER_MAX_RETRIES cfg] = 0 # [1..<SCRAPER_MAX_RETRIES cfg]"
    by (simp add: upt_conv_Cons)
  have ok: "body (network (rate_limit cfg st) (length (request_log (rate_limit cfg st))) url) = Some doc"
    using assms(3) by (simp add: rate_limit_simps)
  have miss: "fetch_url lib cfg url True st = fetch_network lib cfg url True st"
    by (simp add: fetch_url_def get_cached_missing[OF assms(1)])
  have "fst (fetch_network lib cfg url True st) = Inr (Some (JStr doc))"
    unfolding fetch_network_fst upt by (simp only: retry_loop_success[OF ok] fst_conv)
  with miss show ?thesis by simp
qed

text \<open>An exception that leaves a pass makes \<^verbatim>\<open>scrape_resort\<close> return \<^verbatim>\<open>None\<close>.\<close>

lemma scrape_resort_exception:
  assumes "fst (fetch_url lib cfg url True st) = Inr (Some html)"
    and "truthy html"
    and "parse_html html = Inr page"
    and "snd (extract_fields lib page (initial_data url)) = Some e"
  shows "fst (scrape_resort lib cfg parse_html today url st) = Inr None"
proof -
  obtain st1 where f: "fetch_url lib cfg url True st = (Inr (Some html), st1)"
    using assms(1) by (cases "fetch_url lib cfg url True st") simp
  obtain d where x: "extract_fields lib page (initial_data url) = (d, Some e)"
    using assms(4) by (cases "extract_fields lib page (initial_data url)") simp
  show ?thesis
    by (simp add: scrape_resort_def f assms(2,3) x)
qed

text \<open>The JSON-LD pass assigns the coordinates, the description and the region only.\<close>

lemma kept_refl: "kept d d"
  by (simp add: kept_def)

lemma kept_trans: "kept d d' \<Longrightarrow> kept d' d'' \<Longrightarrow> kept d d''"
  by (simp add: kept_def)

lemma read_geo_kept: "kept d (fst (read_geo lib geo d))"
  by (simp add: read_geo_def kept_def split: sum.splits)

lemma read_description_kept: "kept d (fst (read_description obj d))"
  by (simp add: read_description_def kept_def split: option.splits sum.splits)

lemma read_region_kept: "kept d (fst (read_region obj d))"
  by (simp add: read_region_def kept_def split: option.splits sum.splits)

lemma process_item_kept: "kept d (fst (process_item lib x d))"
proof (cases x)
  case (JObj kvs)
  let ?g = "read_geo lib (case map_of kvs ''geo'' of None \<Rightarrow> JObj [] | Some g \<Rightarrow> g) d"
  have 1: "kept d (fst ?g)" by (rule read_geo_kept)
  have 2: "kept d (fst (read_description kvs (fst ?g)))"
    by (rule kept_trans[OF 1 read_description_kept])
  have 3: "kept d (fst (read_region kvs (fst (read_description kvs (fst ?g)))))"
    by (rule kept_trans[OF 2 read_region_kept])
  show ?thesis
    using 1 2 3 by (auto simp add: JObj process_item_def kept_refl split: prod.splits option.splits)
qed (simp_all add: process_item_def kept_refl)

lemma process_items_kept: "kept d (fst (process_items lib xs d))"
proof (induction xs arbitrary: d)
  case Nil
  show ?case by (simp add: kept_refl)
next
  case (Cons x xs)
  have 1: "kept d (fst (process_item lib x d))" by (rule process_item_kept)
  have 2: "kept d (fst (process_items lib xs (fst (process_item lib x d))))"
    by (rule kept_trans[OF 1 Cons.IH])
  show ?case using 1 2 by (auto split: prod.splits option.splits)
qed

lemma process_script_kept: "kept d (fst (process_script lib s d))"
  by (cases s) (simp_all add: process_script_def kept_refl process_items_kept)

lemma process_scripts_kept: "kept d (fst (process_scripts lib ss d))"
proof (induction ss arbitrary: d)
  case Nil
  show ?case by (simp add: kept_refl)
next
  case (Cons s ss)
  have 1: "kept d (fst (process_script lib s d))" by (rule process_script_kept)
  have 2: "kept d (fst (process_scripts lib ss (fst (process_script lib s d))))"
    by (rule kept_trans[OF 1 Cons.IH])
  show ?case using 1 2 by (auto split: prod.splits option.splits)
qed

text \<open>
  When no exception leaves a pass, the record is returned and holds what the title, the
  altitude, the status and the forecast passes found, whatever the other passes found.
\<close>

lemma scrape_resort_record:
  assumes "fetch_url lib cfg url True st = (Inr (Some html), st1)"
    and "truthy html"
    and "parse_html html = Inr page"
    and "snd (extract_fields lib page (initial_data url)) = None"
    and "fst (scrape_forecast lib cfg parse_html today url st1) = Inr forecast_data"
  shows "\<exists>data. fst (scrape_resort lib cfg parse_html today url st) = Inr (Some data)
           \<and> data_name data = h1 page
           \<and> data_altitude_min data = map_option fst (altitude page)
           \<and> data_altitude_max data = map_option snd (altitude page)
           \<and> (status_elem page = None \<longleftrightarrow> cond_status (data_conditions data) = None)
           \<and> data_forecasts data = forecast_data"
proof -
  let ?t = "read_title page (initial_data url)"
  let ?p = "process_scripts lib (ld_json page) ?t"
  from assms(4) have p: "snd ?p = None"
    by (simp add: extract_fields_def split: prod.splits option.splits)
  then have x: "extract_fields lib page (initial_data url)
      = (read_status page (read_snow page (read_altitude page (fst ?p))), None)"
    by (cases ?p) (simp add: extract_fields_def)
  let ?d = "read_status page (read_snow page (read_altitude page (fst ?p)))"
  have k: "kept ?t (fst ?p)" by (rule process_scripts_kept)
  have name: "data_name ?d = h1 page"
    using k by (simp add: kept_def read_status_def read_snow_def read_altitude_def read_title_def
        initial_data_def Let_def split: option.splits prod.splits)
  have lo: "data_altitude_min ?d = map_option fst (altitude page)"
    using k by (simp add: kept_def read_status_def read_snow_def read_altitude_def read_title_def
        initial_data_def Let_def split: option.splits prod.splits)
  have hi: "data_altitude_max ?d = map_option snd (altitude page)"
    using k by (simp add: kept_def read_status_def read_snow_def read_altitude_def read_title_def
        initial_data_def Let_def split: option.splits prod.splits)
  have stat: "status_elem page = None \<longleftrightarrow> cond_status (data_conditions ?d) = None"
    using k by (simp add: kept_def read_status_def read_snow_def read_altitude_def read_title_def
        initial_data_def Let_def split: option.splits prod.splits)
  have fc: "data_forecasts ?d = []"
    using k by (simp add: kept_def read_status_def read_snow_def read_altitude_def read_title_def
        initial_data_def Let_def split: option.splits prod.splits)
  obtain st2 where s: "scrape_forecast lib cfg parse_html today url st1 = (Inr forecast_data, st2)"
    using assms(5) by (cases "scrape_forecast lib cfg parse_html today url st1") simp
  have r: "fst (scrape_resort lib cfg parse_html today url st)
        = Inr (Some (if forecast_data \<noteq> [] then ?d\<lparr> data_forecasts := forecast_data \<rparr> else ?d))"
    by (simp add: scrape_resort_def assms(1,2,3) x s)
  show ?thesis
    unfolding r using name lo hi stat fc by (cases "forecast_data = []") simp_all
qed

lemma example_fetch:
  "fst (fetch_url example_lib config_py url True (example_scraper 100 Map.empty (\<lambda>i. Some ''<html>'')))
   = Inr (Some (JStr ''<html>''))"
  by (rule fetch_url_first_success) (simp_all add: example_scraper_simps config_py_simps)

subsection \<open>C3: when scrape\_resort returns None\<close>

text \<open>
  Claim C3: \<^verbatim>\<open>scrape_resort\<close> returns \<^verbatim>\<open>None\<close> only for a document that cannot be parsed
  or has no title, and a partial record for every other document. The code returns the
  record whenever no exception leaves a pass, with or without a title
  (\<open>scrape_resort_record\<close>); but the handler of the JSON-LD pass does not catch
  \<^verbatim>\<open>AttributeError\<close>, and any exception that leaves a pass gives \<^verbatim>\<open>None\<close>
  (\<open>scrape_resort_exception\<close>). So the claim fails on a parsed document with the title
  "Zermatt" whose JSON-LD script holds \<^verbatim>\<open>[1]\<close>: \<^verbatim>\<open>item.get\<close> on the number raises
  \<^verbatim>\<open>AttributeError\<close> and the result is \<^verbatim>\<open>None\<close>.
\<close>

theorem scrape_resort_titled_document_None:
  "h1 (example_page [Json (JArr [JNum 1])]) = Some ''Zermatt''
   \<and> fst (scrape_resort example_lib config_py (\<lambda>html. Inr (example_page [Json (JArr [JNum 1])])) 0
        ''https://www.bergfex.com/zermatt/''
        (example_scraper 100 Map.empty (\<lambda>i. Some ''<html>''))) = Inr None"
proof
  show "h1 (example_page [Json (JArr [JNum 1])]) = Some ''Zermatt''"
    by (simp add: example_page_def)
  have x: "snd (extract_fields example_lib (example_page [Json (JArr [JNum 1])])
             (initial_data ''https://www.bergfex.com/zermatt/'')) = Some AttributeError"
    by (simp add: extract_fields_def example_page_def process_script_def process_item_def)
  show "fst (scrape_resort example_lib config_py (\<lambda>html. Inr (example_page [Json (JArr [JNum 1])])) 0
        ''https://www.bergfex.com/zermatt/''
        (example_scraper 100 Map.empty (\<lambda>i. Some ''<html>''))) = Inr None"
    by (rule scrape_resort_exception[OF example_fetch _ _ x]) simp_all
qed

subsection \<open>C4: a failing pass and the fields of the other passes\<close>

lemma example_text_address_fields:
  "extract_fields example_lib (example_page [Json example_ld_text_address]) (initial_data url)
   = ((initial_data url)\<lparr> data_name := Some ''Zermatt'', data_latitude := Some 45,
         data_longitude := Some 7 \<rparr>, Some AttributeError)"
  by (simp add: extract_fields_def example_page_def example_ld_text_address_def process_script_def
      process_item_def read_title_def read_geo_def py_get_def float_of_json_def
      read_description_def read_region_def)

text \<open>
  Claim C4: a failure or absence in one pass does not discard the fields that other passes
  populated. Absence does not (\<open>scrape_resort_record\<close>), and neither do the failures that
  the JSON-LD pass catches. A failure it does not catch does: on a page with the title
  "Zermatt" and a JSON-LD block whose \<^verbatim>\<open>address\<close> is a string, the title and the
  coordinates are populated, then \<^verbatim>\<open>item['address'].get\<close> raises \<^verbatim>\<open>AttributeError\<close>,
  and \<^verbatim>\<open>scrape_resort\<close> returns \<^verbatim>\<open>None\<close>, without any of them.
\<close>

theorem scrape_resort_discards_fields:
  "data_name (fst (extract_fields example_lib (example_page [Json example_ld_text_address])
       (initial_data ''https://www.bergfex.com/zermatt/''))) = Some ''Zermatt''
   \<and> data_latitude (fst (extract_fields example_lib (example_page [Json example_ld_text_address])
       (initial_data ''https://www.bergfex.com/zermatt/''))) = Some 45
   \<and> data_longitude (fst (extract_fields example_lib (example_page [Json example_ld_text_address])
       (initial_data ''https://www.bergfex.com/zermatt/''))) = Some 7
   \<and> snd (extract_fields example_lib (example_page [Json example_ld_text_address])
       (initial_data ''https://www.bergfex.com/zermatt/'')) = Some AttributeError
   \<and> fst (scrape_resort example_lib config_py
        (\<lambda>html. Inr (example_page [Json example_ld_text_address])) 0
        ''https://www.bergfex.com/zermatt/''
        (example_scraper 100 Map.empty (\<lambda>i. Some ''<html>''))) = Inr None"
proof -
  have x: "snd (extract_fields example_lib (example_page [Json example_ld_text_address])
       (initial_data ''https://www.bergfex.com/zermatt/'')) = Some AttributeError"
    by (simp add: example_text_address_fields)
  have "fst (scrape_resort example_lib config_py
        (\<lambda>html. Inr (example_page [Json example_ld_text_address])) 0
        ''https://www.bergfex.com/zermatt/''
        (example_scraper 100 Map.empty (\<lambda>i. Some ''<html>''))) = Inr None"
    by (rule scrape_resort_exception[OF example_fetch _ _ x]) simp_all
  then show ?thesis by (simp add: example_text_address_fields)
qed

subsection \<open>C9: snow\_forecast\_cm of a forecast day\<close>

lemma py_then_Inr: "py_then m f = Inr y \<longleftrightarrow> (\<exists>x. m = Inr x \<and> f x = Inr y)"
  by (cases m) (simp_all add: py_then_def)

lemma api_day_snow: "api_day lib daily i = Inr f \<Longrightarrow> snow_forecast_cm f \<noteq> None"
  unfolding api_day_def py_then_Inr by auto

lemma api_days_snow:
  assumes "api_days lib daily is acc = Inr fs"
    and "\<forall>f \<in> set acc. snow_forecast_cm f \<noteq> None"
  shows "\<forall>f \<in> set fs. snow_forecast_cm f \<noteq> None"
  using assms
proof (induction "is" arbitrary: acc)
  case Nil
  then show ?case by simp
next
  case (Cons i rest)
  from Cons.prems(1) obtain f where f: "api_day lib daily i = Inr f"
    and r: "api_days lib daily rest (acc @ [f]) = Inr fs"
    by (auto split: sum.splits)
  have "\<forall>g \<in> set (acc @ [f]). snow_forecast_cm g \<noteq> None"
    using Cons.prems(2) api_day_snow[OF f] by auto
  from Cons.IH[OF r this] show ?case .
qed

lemma get_forecast_snow:
  "f \<in> set (get_forecast lib open_meteo lat lng) \<Longrightarrow> snow_forecast_cm f \<noteq> None"
proof -
  assume a: "f \<in> set (get_forecast lib open_meteo lat lng)"
  then obtain fs where fs: "read_forecast lib (open_meteo lat lng) = Inr fs" "f \<in> set fs"
    by (cases "read_forecast lib (open_meteo lat lng)") (auto simp add: get_forecast_def)
  from fs(1) have "fs = [] \<or> (\<exists>daily is. api_days lib daily is [] = Inr fs)"
    by (auto simp add: read_forecast_def py_then_Inr split: if_splits)
  with fs(2) api_days_snow show ?thesis by fastforce
qed

lemma scrape_day_snow_absent:
  "snow_el d = None \<Longrightarrow> scrape_day today i d = Inr f \<Longrightarrow> snow_forecast_cm f = Some 0"
  by (auto simp add: scrape_day_def Let_def split: option.splits)

lemma scrape_day_snow_number:
  "snow_el d = Some t \<Longrightarrow> scrape_day today i d = Inr f \<Longrightarrow> snow_forecast_cm f = first_int t"
  by (auto simp add: scrape_day_def Let_def split: option.splits)

lemma first_int_dash: "first_int ''-'' = None"
  by (simp add: is_digit_def)

text \<open>
  Claim C9: every forecast day of either source has an integer \<^verbatim>\<open>snow_forecast_cm\<close>,
  0 when the snow node or its first integer is absent. The coordinate-based source always
  sets an integer (\<open>get_forecast_snow\<close>), and the page-based source sets 0 when the node is
  absent (\<open>scrape_day_snow_absent\<close>). But the \<^verbatim>\<open>else\<close> that sets 0 belongs to
  \<^verbatim>\<open>if snow_el\<close>: when the node is there and its text has no digit, as in "-", the key is
  never set.
\<close>

theorem scrape_forecast_snow_unset:
  "fst (scrape_forecast example_lib config_py
     (\<lambda>html. Inr (example_forecast_page [\<lparr> temps = [], snow_el = Some ''-'', img = None \<rparr>])) 0
     ''https://www.bergfex.com/zermatt/''
     (example_scraper 100 Map.empty (\<lambda>i. Some ''<html>'')))
   = Inr [\<lparr> date = Naive 0, temp_max = None, temp_min = None,
            snow_forecast_cm = None, symbol = None \<rparr>]"
proof -
  obtain st' where f: "fetch_url example_lib config_py
      (rstrip_slash ''https://www.bergfex.com/zermatt/'' @ ''/wetter/prognose/'') True
      (example_scraper 100 Map.empty (\<lambda>i. Some ''<html>'')) = (Inr (Some (JStr ''<html>'')), st')"
    using example_fetch[of "rstrip_slash ''https://www.bergfex.com/zermatt/'' @ ''/wetter/prognose/''"]
    by (cases "fetch_url example_lib config_py
      (rstrip_slash ''https://www.bergfex.com/zermatt/'' @ ''/wetter/prognose/'') True
      (example_scraper 100 Map.empty (\<lambda>i. Some ''<html>''))") simp
  have p: "parse_forecast 0 (example_forecast_page [\<lparr> temps = [], snow_el = Some ''-'', img = None \<rparr>])
      = [\<lparr> date = Naive 0, temp_max = None, temp_min = None,
            snow_forecast_cm = None, symbol = None \<rparr>]"
    by (simp add: parse_forecast_def example_forecast_page_def scrape_day_def Let_def
        List.map_filter_simps is_digit_def)
  show ?thesis
    unfolding scrape_forecast_def f by (simp add: p)
qed

end
